theory Spec2Isabelle
  imports Main
begin

section \<open>Values\<close>

text \<open>
  The engine moves dynamically typed Python values around: task parameters, handler
  results, and the documents read from and written to the template and instance files.
  They are modelled by the JSON values (numbers are integers) and, for everything else
  that a YAML file or a handler can produce (a date, a set, bytes), by \<open>PObject\<close>:
  the name of the object's class, its truth value and whether it is hashable. On the
  JSON values \<^verbatim>\<open>json.dump\<close> followed by \<^verbatim>\<open>json.load\<close> gives the value back; on a
  \<open>PObject\<close> \<^verbatim>\<open>json.dump\<close> raises.
  A \<^verbatim>\<open>dict\<close> is an association list (insertion order is kept, keys are strings,
  as the annotations \<^verbatim>\<open>Dict[str, Any]\<close> say); the first binding of a key is the one
  a lookup sees. Text is a list of bytes: the Korean messages of the source are written
  in UTF-8, in which the ASCII characters \<^verbatim>\<open>$\<close> and \<^verbatim>\<open>.\<close> never occur inside
  another character, so \<^verbatim>\<open>startswith\<close> and \<^verbatim>\<open>split\<close> act as on code points.
\<close>

datatype pyval =
    PNone
  | PBool bool
  | PInt int
  | PStr string
  | PList "pyval list"
  | PDict "(string \<times> pyval) list"
  | PObject string bool bool

type_synonym pydict = "(string \<times> pyval) list"

text \<open>
  Exceptions, with the message \<^verbatim>\<open>str(e)\<close> that the engine records.
  \<open>HandlerError\<close> stands for any other subclass of \<^verbatim>\<open>Exception\<close>, and
  \<open>BaseExc\<close> for an exception outside that class (\<^verbatim>\<open>KeyboardInterrupt\<close>,
  \<^verbatim>\<open>SystemExit\<close>, \<^verbatim>\<open>asyncio.CancelledError\<close>), which a clause
  \<^verbatim>\<open>except Exception\<close> does not catch.
\<close>

datatype py_exn =
    ValueError string
  | TypeError string
  | KeyError string
  | FileNotFoundError string
  | OSError string
  | YAMLError string
  | HandlerError string
  | BaseExc string

definition quoted :: "string \<Rightarrow> string" where
  "quoted s = [CHR 0x27] @ s @ [CHR 0x27]"

fun exn_str :: "py_exn \<Rightarrow> string" where
  "exn_str (ValueError m) = m"
| "exn_str (TypeError m) = m"
| "exn_str (KeyError k) = quoted k"
| "exn_str (FileNotFoundError m) = m"
| "exn_str (OSError m) = m"
| "exn_str (YAMLError m) = m"
| "exn_str (HandlerError m) = m"
| "exn_str (BaseExc m) = m"

text \<open>\<^verbatim>\<open>isinstance(e, Exception)\<close>: what \<^verbatim>\<open>except Exception\<close> catches.\<close>

fun is_Exception :: "py_exn \<Rightarrow> bool" where
  "is_Exception (BaseExc m) = False"
| "is_Exception e = True"

text \<open>Truth value of a Python object, as \<^verbatim>\<open>if x:\<close> tests it.\<close>

fun truthy :: "pyval \<Rightarrow> bool" where
  "truthy PNone = False"
| "truthy (PBool b) = b"
| "truthy (PInt i) = (i \<noteq> 0)"
| "truthy (PStr s) = (s \<noteq> [])"
| "truthy (PList xs) = (xs \<noteq> [])"
| "truthy (PDict kvs) = (kvs \<noteq> [])"
| "truthy (PObject cls tv hashable) = tv"

text \<open>\<^verbatim>\<open>k in d\<close>, \<^verbatim>\<open>d.get(k)\<close> and \<^verbatim>\<open>d[k] = v\<close> on a dict.\<close>

definition dict_has :: "pydict \<Rightarrow> string \<Rightarrow> bool" where
  "dict_has d k = (k \<in> set (map fst d))"

definition dict_get :: "pydict \<Rightarrow> string \<Rightarrow> pyval option" where
  "dict_get d k = map_of d k"

fun dict_set :: "pydict \<Rightarrow> string \<Rightarrow> pyval \<Rightarrow> pydict" where
  "dict_set [] k v = [(k, v)]"
| "dict_set ((k', v') # d) k v =
     (if k' = k then (k, v) # d else (k', v') # dict_set d k v)"

text \<open>\<^verbatim>\<open>s.split(".")\<close>: the pieces between the separators, at least one piece.\<close>

fun split_on :: "char \<Rightarrow> string \<Rightarrow> string \<Rightarrow> string list" where
  "split_on sep cur [] = [rev cur]"
| "split_on sep cur (c # cs) =
     (if c = sep then rev cur # split_on sep [] cs else split_on sep (c # cur) cs)"

definition split_dot :: "string \<Rightarrow> string list" where
  "split_dot s = split_on (CHR ''.'') [] s"

definition starts_with_dollar :: "string \<Rightarrow> bool" where
  "starts_with_dollar s = (case s of [] \<Rightarrow> False | c # _ \<Rightarrow> c = CHR ''$'')"

section \<open>Parameter resolution\<close>

text \<open>
  \<^verbatim>\<open>WorkflowEngine._process_params\<close>, first half (the key
  \<^verbatim>\<open>previous_result\<close>). The test \<^verbatim>\<open>task_id in results\<close> hashes
  \<^verbatim>\<open>task_id\<close>: a list, a dict or another unhashable object there raises
  \<^verbatim>\<open>TypeError\<close>; a number, a boolean or another hashable object is no key of the
  accumulator, whose keys are task ids.
\<close>

definition strip_dollar :: "pyval \<Rightarrow> pyval" where
  "strip_dollar v =
     (case v of
        PStr s \<Rightarrow> if starts_with_dollar s then PStr (tl s) else v
      | _ \<Rightarrow> v)"

definition unhashable :: "string \<Rightarrow> py_exn" where
  "unhashable cls = TypeError (''unhashable type: '' @ quoted cls)"

definition process_previous :: "pydict \<Rightarrow> pydict \<Rightarrow> py_exn + pydict" where
  "process_previous params results =
     (case dict_get params ''previous_result'' of
        None \<Rightarrow> Inr []
      | Some v \<Rightarrow>
          if \<not> truthy v then Inr []
          else (case strip_dollar v of
                  PStr task_id \<Rightarrow>
                    (case dict_get results task_id of
                       Some r \<Rightarrow> Inr [(''previous_result'', r)]
                     | None \<Rightarrow> Inr [])
                | PList _ \<Rightarrow> Inl (unhashable ''list'')
                | PDict _ \<Rightarrow> Inl (unhashable ''dict'')
                | PObject cls _ hashable \<Rightarrow>
                    if hashable then Inr [] else Inl (unhashable cls)
                | _ \<Rightarrow> Inr []))"

text \<open>
  The inner loop over \<^verbatim>\<open>parts[1:]\<close>: descend into a dict that has the segment as a
  key; anything else makes the value \<^verbatim>\<open>None\<close> and leaves the loop.
\<close>

fun walk_path :: "pyval \<Rightarrow> string list \<Rightarrow> pyval" where
  "walk_path result [] = result"
| "walk_path result (part # parts) =
     (case result of
        PDict d \<Rightarrow>
          (case dict_get d part of
             Some v \<Rightarrow> walk_path v parts
           | None \<Rightarrow> PNone)
      | _ \<Rightarrow> PNone)"

definition resolve_value :: "pydict \<Rightarrow> pyval \<Rightarrow> pyval" where
  "resolve_value results val =
     (case val of
        PStr s \<Rightarrow>
          if starts_with_dollar s then
            (case split_dot (tl s) of
               [] \<Rightarrow> val
             | task_id # parts \<Rightarrow>
                 (case dict_get results task_id of
                    Some result \<Rightarrow> walk_path result parts
                  | None \<Rightarrow> val))
          else val
      | _ \<Rightarrow> val)"

text \<open>The loop \<^verbatim>\<open>for key, value in params.items()\<close>.\<close>

fun copy_params :: "pydict \<Rightarrow> pydict \<Rightarrow> pydict \<Rightarrow> pydict" where
  "copy_params results [] processed = processed"
| "copy_params results ((key, val) # rest) processed =
     copy_params results rest
       (if key \<noteq> ''previous_result''
        then dict_set processed key (resolve_value results val)
        else processed)"

definition process_params :: "pydict \<Rightarrow> pydict \<Rightarrow> py_exn + pydict" where
  "process_params params results =
     (case process_previous params results of
        Inl e \<Rightarrow> Inl e
      | Inr processed \<Rightarrow> Inr (copy_params results params processed))"

section \<open>Tasks and workflows\<close>

datatype status = Pending | Running | Completed | Failed

fun status_str :: "status \<Rightarrow> string" where
  "status_str Pending = ''pending''"
| "status_str Running = ''running''"
| "status_str Completed = ''completed''"
| "status_str Failed = ''failed''"

text \<open>
  Class \<^verbatim>\<open>Task\<close>. Time stamps are readings of a clock (see \<open>datetime_now\<close>);
  \<^verbatim>\<open>None\<close> in \<^verbatim>\<open>error\<close>, \<^verbatim>\<open>start_time\<close> and \<^verbatim>\<open>end_time\<close> is \<open>None\<close>.
  The id, the handler type and the parameters have the types of the annotations; a
  description is whatever the document holds, the engine never looks at it.
\<close>

record task =
  task_id :: string
  task_handler :: string
  task_parameters :: pydict
  task_description :: pyval
  task_status :: status
  task_result :: pyval
  task_error :: "string option"
  task_start_time :: "nat option"
  task_end_time :: "nat option"

text \<open>The text \<^verbatim>\<open>f"{handler} \<dots>"\<close> that \<^verbatim>\<open>Task.__init__\<close> uses for a missing description.\<close>

definition default_description :: "string \<Rightarrow> string" where
  "default_description h =
     h @ [CHR 0x20, CHR 0xEC, CHR 0x9E, CHR 0x91, CHR 0xEC, CHR 0x97, CHR 0x85]"

text \<open>
  \<^verbatim>\<open>Task.__init__\<close>: \<^verbatim>\<open>description or f"\<dots>"\<close> replaces every false
  description (\<^verbatim>\<open>None\<close>, the empty string) by the default text.
\<close>

definition Task_init :: "string \<Rightarrow> string \<Rightarrow> pydict \<Rightarrow> pyval \<Rightarrow> task" where
  "Task_init i h params descr =
     \<lparr> task_id = i, task_handler = h, task_parameters = params,
       task_description = (if truthy descr then descr else PStr (default_description h)),
       task_status = Pending, task_result = PNone, task_error = None,
       task_start_time = None, task_end_time = None \<rparr>"

record workflow =
  wf_id :: string
  wf_name :: pyval
  wf_description :: pyval
  wf_tasks :: "task list"
  wf_status :: status
  wf_result :: pyval
  wf_error :: "string option"
  wf_current_task_index :: int
  wf_created_at :: nat
  wf_updated_at :: nat

section \<open>The world outside the engine\<close>

text \<open>
  What the engine touches besides its arguments: the wall clock, read by
  \<^verbatim>\<open>datetime.now()\<close>, and the observers. \<open>notified\<close> lists the calls made to
  observers, in order, whether the call returned or raised.
\<close>

datatype event =
    TaskStart string
  | TaskComplete string pyval
  | TaskFail string string

record world =
  now :: nat
  notified :: "event list"

definition datetime_now :: "world \<Rightarrow> nat \<times> world" where
  "datetime_now wd = (now wd, wd\<lparr>now := Suc (now wd)\<rparr>)"

text \<open>
  A call \<^verbatim>\<open>if self.on_x: self.on_x(\<dots>)\<close>. The first argument is \<open>None\<close> when no
  callback is registered, else what the call does: \<open>Some None\<close> when it returns,
  \<open>Some (Some e)\<close> when it raises \<open>e\<close>.
\<close>

definition notify :: "py_exn option option \<Rightarrow> event \<Rightarrow> world \<Rightarrow> py_exn option \<times> world" where
  "notify call ev wd =
     (case call of
        None \<Rightarrow> (None, wd)
      | Some raised \<Rightarrow> (raised, wd\<lparr>notified := notified wd @ [ev]\<rparr>))"

section \<open>The engine\<close>

text \<open>
  A handler takes the resolved parameters and returns a result or raises. An observer
  is a callable of the caller's: it returns (\<open>None\<close>) or raises. The three observer
  fields are \<open>None\<close> when no callback is registered.
\<close>

type_synonym handler = "pydict \<Rightarrow> py_exn + pyval"

record engine =
  task_handlers :: "string \<Rightarrow> handler option"
  cancel_execution :: bool
  on_task_start :: "(string \<Rightarrow> py_exn option) option"
  on_task_complete :: "(string \<Rightarrow> pyval \<Rightarrow> py_exn option) option"
  on_task_fail :: "(string \<Rightarrow> string \<Rightarrow> py_exn option) option"

definition WorkflowEngine_init :: engine where
  "WorkflowEngine_init =
     \<lparr> task_handlers = (\<lambda>_. None), cancel_execution = False,
       on_task_start = None, on_task_complete = None, on_task_fail = None \<rparr>"

definition register_task_handler :: "engine \<Rightarrow> string \<Rightarrow> handler \<Rightarrow> engine" where
  "register_task_handler eng handler_type handler_func =
     eng\<lparr>task_handlers := (task_handlers eng)(handler_type \<mapsto> handler_func)\<rparr>"

text \<open>The message of the \<^verbatim>\<open>ValueError\<close> raised for an unregistered handler type.\<close>

definition no_handler_msg :: "string \<Rightarrow> string" where
  "no_handler_msg h =
     [CHR 0xEC, CHR 0x9E, CHR 0x91, CHR 0xEC, CHR 0x97, CHR 0x85, CHR 0x20, CHR 0xED,
      CHR 0x83, CHR 0x80, CHR 0xEC, CHR 0x9E, CHR 0x85, CHR 0x20, CHR 0x27]
     @ h @
     [CHR 0x27, CHR 0xEC, CHR 0x97, CHR 0x90, CHR 0x20, CHR 0xEB, CHR 0x8C, CHR 0x80,
      CHR 0xED, CHR 0x95, CHR 0x9C, CHR 0x20, CHR 0xED, CHR 0x95, CHR 0xB8, CHR 0xEB,
      CHR 0x93, CHR 0xA4, CHR 0xEB, CHR 0x9F, CHR 0xAC, CHR 0xEA, CHR 0xB0, CHR 0x80,
      CHR 0x20, CHR 0xEC, CHR 0x97, CHR 0x86, CHR 0xEC, CHR 0x8A, CHR 0xB5, CHR 0xEB,
      CHR 0x8B, CHR 0x88, CHR 0xEB, CHR 0x8B, CHR 0xA4, CHR ''.'']"

text \<open>
  \<^verbatim>\<open>WorkflowEngine._execute_task\<close>, piece by piece.

  The first three statements of the \<^verbatim>\<open>try\<close> block: the handler is looked up, the
  parameters are resolved, the handler is called.
\<close>

definition call_handler :: "engine \<Rightarrow> task \<Rightarrow> pydict \<Rightarrow> py_exn + pyval" where
  "call_handler eng t previous_results =
     (case task_handlers eng (task_handler t) of
        None \<Rightarrow> Inl (ValueError (no_handler_msg (task_handler t)))
      | Some handler \<Rightarrow>
          (case process_params (task_parameters t) previous_results of
             Inl e \<Rightarrow> Inl e
           | Inr params \<Rightarrow> handler params))"

text \<open>
  The whole \<^verbatim>\<open>try\<close> block: after the handler has returned, the task is marked
  completed and \<^verbatim>\<open>on_task_complete\<close> is called, still inside the block, so that
  what the observer raises is raised by the block.
\<close>

definition try_block :: "engine \<Rightarrow> world \<Rightarrow> task \<Rightarrow> pydict \<Rightarrow> (py_exn + pyval) \<times> task \<times> world" where
  "try_block eng wd t previous_results =
     (case call_handler eng t previous_results of
        Inl e \<Rightarrow> (Inl e, t, wd)
      | Inr r \<Rightarrow>
          (let (ts, wd1) = datetime_now wd;
               t1 = t\<lparr>task_status := Completed, task_result := r, task_end_time := Some ts\<rparr>;
               (raised, wd2) =
                 notify (map_option (\<lambda>f. f (task_id t1) r) (on_task_complete eng))
                   (TaskComplete (task_id t1) r) wd1
           in (case raised of
                 Some e \<Rightarrow> (Inl e, t1, wd2)
               | None \<Rightarrow> (Inr r, t1, wd2))))"

text \<open>
  The \<^verbatim>\<open>except Exception as e\<close> block: the task is marked failed,
  \<^verbatim>\<open>on_task_fail\<close> is called, and \<open>e\<close> is raised again, unless the observer
  raises, whose exception then leaves the block.
\<close>

definition except_block :: "engine \<Rightarrow> world \<Rightarrow> task \<Rightarrow> py_exn \<Rightarrow> (py_exn + pyval) \<times> task \<times> world" where
  "except_block eng wd t e =
     (let (ts, wd1) = datetime_now wd;
          t1 = t\<lparr>task_status := Failed, task_error := Some (exn_str e),
                 task_end_time := Some ts\<rparr>;
          (raised, wd2) =
            notify (map_option (\<lambda>f. f (task_id t1) (exn_str e)) (on_task_fail eng))
              (TaskFail (task_id t1) (exn_str e)) wd1
      in (case raised of
            Some e2 \<Rightarrow> (Inl e2, t1, wd2)
          | None \<Rightarrow> (Inl e, t1, wd2)))"

text \<open>
  The method: the task is marked running and \<^verbatim>\<open>on_task_start\<close> is called before
  the \<^verbatim>\<open>try\<close>, so that what this observer raises leaves the method at once; an
  exception of the \<^verbatim>\<open>try\<close> block enters the \<^verbatim>\<open>except\<close> block when it is an
  \<^verbatim>\<open>Exception\<close>, and leaves the method as it is otherwise.
\<close>

definition execute_task ::
  "engine \<Rightarrow> world \<Rightarrow> task \<Rightarrow> pydict \<Rightarrow> (py_exn + pyval) \<times> task \<times> world" where
  "execute_task eng wd t previous_results =
     (let (ts, wd1) = datetime_now wd;
          t1 = t\<lparr>task_status := Running, task_start_time := Some ts\<rparr>;
          (raised, wd2) =
            notify (map_option (\<lambda>f. f (task_id t1)) (on_task_start eng))
              (TaskStart (task_id t1)) wd1
      in (case raised of
            Some e \<Rightarrow> (Inl e, t1, wd2)
          | None \<Rightarrow>
              (case try_block eng wd2 t1 previous_results of
                 (Inr r, t2, wd3) \<Rightarrow> (Inr r, t2, wd3)
               | (Inl e, t2, wd3) \<Rightarrow>
                   if is_Exception e then except_block eng wd3 t2 e
                   else (Inl e, t2, wd3))))"

text \<open>
  The loop of \<^verbatim>\<open>execute_workflow\<close>. Another thread may set
  \<^verbatim>\<open>engine.cancel_execution\<close> while the run goes on; \<open>req i\<close> says that it did so
  after the previous check of the flag and before the check that precedes the task at
  index \<open>i\<close>. The flag, once set, stays set for the rest of the run.
\<close>

datatype loop_exit = Exhausted | Cancelled | Aborted py_exn

record run_state =
  rs_engine :: engine
  rs_world :: world
  rs_results :: pydict
  rs_index :: int

fun run_tasks ::
  "(nat \<Rightarrow> bool) \<Rightarrow> nat \<Rightarrow> task list \<Rightarrow> run_state \<Rightarrow> loop_exit \<times> task list \<times> run_state" where
  "run_tasks req i [] s = (Exhausted, [], s)"
| "run_tasks req i (t # ts) s =
     (let eng = (rs_engine s)\<lparr>cancel_execution := cancel_execution (rs_engine s) \<or> req i\<rparr>;
          s1 = s\<lparr>rs_engine := eng\<rparr>
      in if cancel_execution eng then (Cancelled, t # ts, s1)
         else (case execute_task eng (rs_world s1) t (rs_results s1) of
                 (Inl e, t', wd') \<Rightarrow>
                   (Aborted e, t' # ts, s1\<lparr>rs_world := wd', rs_index := int i\<rparr>)
               | (Inr r, t', wd') \<Rightarrow>
                   (case run_tasks req (Suc i) ts
                           (s1\<lparr>rs_world := wd', rs_index := int i,
                               rs_results := dict_set (rs_results s1) (task_id t') r\<rparr>) of
                      (x, ts', s') \<Rightarrow> (x, t' # ts', s'))))"

text \<open>The marker that a cancelled run leaves in \<^verbatim>\<open>workflow.error\<close>.\<close>

definition cancelled_msg :: string where
  "cancelled_msg =
     [CHR 0xEC, CHR 0x82, CHR 0xAC, CHR 0xEC, CHR 0x9A, CHR 0xA9, CHR 0xEC, CHR 0x9E,
      CHR 0x90, CHR 0xEC, CHR 0x97, CHR 0x90, CHR 0x20, CHR 0xEC, CHR 0x9D, CHR 0x98,
      CHR 0xED, CHR 0x95, CHR 0xB4, CHR 0x20, CHR 0xEC, CHR 0xB7, CHR 0xA8, CHR 0xEC,
      CHR 0x86, CHR 0x8C, CHR 0xEB, CHR 0x90, CHR 0xA8]"

text \<open>
  \<^verbatim>\<open>WorkflowEngine.execute_workflow\<close>: \<open>Inr results\<close> is a normal return,
  \<open>Inl e\<close> the exception that reaches the caller; the engine, the world and the
  workflow come back as the call leaves them. The clause \<^verbatim>\<open>except Exception\<close> marks
  the workflow failed before raising again; any other exception passes it by.
\<close>

definition execute_workflow ::
  "(nat \<Rightarrow> bool) \<Rightarrow> engine \<Rightarrow> world \<Rightarrow> workflow
     \<Rightarrow> (py_exn + pydict) \<times> engine \<times> world \<times> workflow" where
  "execute_workflow req eng wd w =
     (let w1 = w\<lparr>wf_status := Running, wf_current_task_index := - 1\<rparr>;
          s0 = \<lparr> rs_engine = eng\<lparr>cancel_execution := False\<rparr>, rs_world = wd,
                 rs_results = [], rs_index = - 1 \<rparr>
      in (case run_tasks req 0 (wf_tasks w1) s0 of
            (x, ts, s) \<Rightarrow>
              (let w2 = w1\<lparr>wf_tasks := ts, wf_current_task_index := rs_index s\<rparr>
               in (case x of
                     Cancelled \<Rightarrow>
                       (Inr (rs_results s), rs_engine s, rs_world s,
                        w2\<lparr>wf_status := Failed, wf_error := Some cancelled_msg\<rparr>)
                   | Exhausted \<Rightarrow>
                       (Inr (rs_results s), rs_engine s, rs_world s,
                        w2\<lparr>wf_status := Completed, wf_result := PDict (rs_results s)\<rparr>)
                   | Aborted e \<Rightarrow>
                       (Inl e, rs_engine s, rs_world s,
                        if is_Exception e
                        then w2\<lparr>wf_status := Failed, wf_error := Some (exn_str e)\<rparr>
                        else w2)))))"

text \<open>
  The run seen from outside. \<open>status_writes\<close> lists the values that one call of
  \<^verbatim>\<open>_execute_task\<close> assigns to \<^verbatim>\<open>task.status\<close>, in order: \<open>running\<close> before
  the \<^verbatim>\<open>try\<close>, \<open>completed\<close> when the handler has returned, \<open>failed\<close> when the
  \<^verbatim>\<open>except\<close> block is entered. \<open>status_trace\<close> follows \<open>run_tasks\<close> and gives
  one snapshot of all task statuses after each assignment, \<open>past\<close> holding the
  statuses of the tasks already left behind.
\<close>

definition status_writes :: "engine \<Rightarrow> task \<Rightarrow> pydict \<Rightarrow> status list" where
  "status_writes eng t previous_results =
     Running #
     (case map_option (\<lambda>f. f (task_id t)) (on_task_start eng) of
        Some (Some e) \<Rightarrow> []
      | _ \<Rightarrow>
          (case call_handler eng t previous_results of
             Inl e \<Rightarrow> if is_Exception e then [Failed] else []
           | Inr r \<Rightarrow>
               Completed #
               (case map_option (\<lambda>f. f (task_id t) r) (on_task_complete eng) of
                  Some (Some e) \<Rightarrow> if is_Exception e then [Failed] else []
                | _ \<Rightarrow> [])))"

fun status_trace ::
  "(nat \<Rightarrow> bool) \<Rightarrow> nat \<Rightarrow> status list \<Rightarrow> task list \<Rightarrow> run_state \<Rightarrow> status list list" where
  "status_trace req i past [] s = []"
| "status_trace req i past (t # ts) s =
     (let eng = (rs_engine s)\<lparr>cancel_execution := cancel_execution (rs_engine s) \<or> req i\<rparr>;
          s1 = s\<lparr>rs_engine := eng\<rparr>
      in if cancel_execution eng then []
         else map (\<lambda>st. past @ st # map task_status ts) (status_writes eng t (rs_results s1)) @
              (case execute_task eng (rs_world s1) t (rs_results s1) of
                 (Inl e, t', wd') \<Rightarrow> []
               | (Inr r, t', wd') \<Rightarrow>
                   status_trace req (Suc i) (past @ [task_status t']) ts
                     (s1\<lparr>rs_world := wd', rs_index := int i,
                         rs_results := dict_set (rs_results s1) (task_id t') r\<rparr>)))"

definition execute_workflow_trace ::
  "(nat \<Rightarrow> bool) \<Rightarrow> engine \<Rightarrow> world \<Rightarrow> workflow \<Rightarrow> status list list" where
  "execute_workflow_trace req eng wd w =
     map task_status (wf_tasks w) #
     status_trace req 0 [] (wf_tasks w)
       \<lparr> rs_engine = eng\<lparr>cancel_execution := False\<rparr>, rs_world = wd,
         rs_results = [], rs_index = - 1 \<rparr>"

text \<open>One step forward in the life of a task, or no step.\<close>

fun forward :: "status \<Rightarrow> status \<Rightarrow> bool" where
  "forward Pending Running = True"
| "forward Running Completed = True"
| "forward Running Failed = True"
| "forward a b = (a = b)"

text \<open>
  Words for the statements about a run. An observer returns for a task when it is not
  registered or its call does not raise. A task returns \<open>r\<close> on an accumulator when
  its start observer returns, its handler returns \<open>r\<close> and its completion observer
  returns; \<open>tasks_return\<close> says so of the tasks \<open>ts\<close> run in order, the accumulator
  growing as in the loop, and \<open>handlers_return\<close> says it of the handlers alone.
  \<open>results_of\<close> is the accumulator after the results \<open>rs\<close> of the tasks \<open>ts\<close> have
  been stored in order.
\<close>

definition start_returns :: "engine \<Rightarrow> task \<Rightarrow> bool" where
  "start_returns eng t =
     (case on_task_start eng of None \<Rightarrow> True | Some f \<Rightarrow> f (task_id t) = None)"

definition complete_returns :: "engine \<Rightarrow> task \<Rightarrow> pyval \<Rightarrow> bool" where
  "complete_returns eng t r =
     (case on_task_complete eng of None \<Rightarrow> True | Some f \<Rightarrow> f (task_id t) r = None)"

definition fail_returns :: "engine \<Rightarrow> task \<Rightarrow> py_exn \<Rightarrow> bool" where
  "fail_returns eng t e =
     (case on_task_fail eng of None \<Rightarrow> True | Some f \<Rightarrow> f (task_id t) (exn_str e) = None)"

definition task_returns :: "engine \<Rightarrow> pydict \<Rightarrow> task \<Rightarrow> pyval \<Rightarrow> bool" where
  "task_returns eng acc t r =
     (start_returns eng t \<and> call_handler eng t acc = Inr r \<and> complete_returns eng t r)"

fun results_of :: "pydict \<Rightarrow> task list \<Rightarrow> pyval list \<Rightarrow> pydict" where
  "results_of acc (t # ts) (r # rs) = results_of (dict_set acc (task_id t) r) ts rs"
| "results_of acc ts rs = acc"

fun tasks_return :: "engine \<Rightarrow> pydict \<Rightarrow> task list \<Rightarrow> pyval list \<Rightarrow> bool" where
  "tasks_return eng acc [] rs = (rs = [])"
| "tasks_return eng acc (t # ts) [] = False"
| "tasks_return eng acc (t # ts) (r # rs) =
     (task_returns eng acc t r \<and> tasks_return eng (dict_set acc (task_id t) r) ts rs)"

fun handlers_return :: "engine \<Rightarrow> pydict \<Rightarrow> task list \<Rightarrow> pyval list \<Rightarrow> bool" where
  "handlers_return eng acc [] rs = (rs = [])"
| "handlers_return eng acc (t # ts) [] = False"
| "handlers_return eng acc (t # ts) (r # rs) =
     (call_handler eng t acc = Inr r \<and> handlers_return eng (dict_set acc (task_id t) r) ts rs)"

section \<open>The path walk as the specification words it\<close>

text \<open>
  The specification lets a segment index into a sequence when it reads as a non-negative
  integer within range. \<open>spec_walk\<close> follows those words, to be compared with
  \<open>walk_path\<close>.
\<close>

definition is_digit :: "char \<Rightarrow> bool" where
  "is_digit c = (48 \<le> (of_char c :: nat) \<and> (of_char c :: nat) \<le> 57)"

fun parse_digits :: "nat \<Rightarrow> string \<Rightarrow> nat option" where
  "parse_digits acc [] = Some acc"
| "parse_digits acc (c # cs) =
     (if is_digit c then parse_digits (10 * acc + (of_char c - 48)) cs else None)"

definition parse_index :: "string \<Rightarrow> nat option" where
  "parse_index s = (if s = [] then None else parse_digits 0 s)"

fun spec_walk :: "pyval \<Rightarrow> string list \<Rightarrow> pyval" where
  "spec_walk cur [] = cur"
| "spec_walk cur (seg # segs) =
     (case cur of
        PList xs \<Rightarrow>
          (case parse_index seg of
             Some n \<Rightarrow> if n < length xs then spec_walk (xs ! n) segs else PNone
           | None \<Rightarrow> PNone)
      | PDict d \<Rightarrow>
          (case dict_get d seg of
             Some v \<Rightarrow> spec_walk v segs
           | None \<Rightarrow> PNone)
      | _ \<Rightarrow> PNone)"

section \<open>Documents: \<^verbatim>\<open>to_dict\<close>, \<^verbatim>\<open>from_dict\<close>, \<^verbatim>\<open>from_yaml\<close>\<close>

text \<open>
  Building an object from a document either gives the object, or raises, or meets a
  document on which the model does not follow the source: an id or a handler type that
  is no string, parameters that are neither a mapping nor false, or a \<open>PObject\<close> where
  a mapping or a list is expected (what the source does there depends on the class of
  the object). The model stops there with \<open>IllTyped\<close>. A name and a description may be
  any value, \<^verbatim>\<open>None\<close> for a blank entry of the file among them: the source stores
  them as they are.
\<close>

datatype 'a built = Built 'a | Raises py_exn | IllTyped

definition type_name :: "pyval \<Rightarrow> string" where
  "type_name v =
     (case v of
        PNone \<Rightarrow> ''NoneType'' | PBool _ \<Rightarrow> ''bool'' | PInt _ \<Rightarrow> ''int''
      | PStr _ \<Rightarrow> ''str'' | PList _ \<Rightarrow> ''list'' | PDict _ \<Rightarrow> ''dict''
      | PObject cls _ _ \<Rightarrow> cls)"

text \<open>The \<^verbatim>\<open>TypeError\<close> of \<^verbatim>\<open>data["id"]\<close> on a value that is no mapping.\<close>

definition not_subscriptable :: "pyval \<Rightarrow> string" where
  "not_subscriptable v =
     (case v of
        PStr _ \<Rightarrow> ''string indices must be integers, not '' @ quoted ''str''
      | PList _ \<Rightarrow> ''list indices must be integers or slices, not str''
      | _ \<Rightarrow> quoted (type_name v) @ '' object is not subscriptable'')"

text \<open>\<^verbatim>\<open>d.get(k, default)\<close>.\<close>

definition get_or :: "pydict \<Rightarrow> string \<Rightarrow> pyval \<Rightarrow> pyval" where
  "get_or d k dflt = (case dict_get d k of Some v \<Rightarrow> v | None \<Rightarrow> dflt)"

text \<open>\<^verbatim>\<open>parameters or {}\<close> in \<^verbatim>\<open>Task.__init__\<close>: every false value becomes \<open>{}\<close>.\<close>

definition params_arg :: "pyval \<Rightarrow> pydict option" where
  "params_arg p = (case p of PDict d \<Rightarrow> Some d | _ \<Rightarrow> if truthy p then None else Some [])"

definition task_of_fields :: "pyval \<Rightarrow> pyval \<Rightarrow> pyval \<Rightarrow> pyval \<Rightarrow> task built" where
  "task_of_fields i h p d =
     (case (i, h, params_arg p) of
        (PStr i', PStr h', Some p') \<Rightarrow> Built (Task_init i' h' p' d)
      | _ \<Rightarrow> IllTyped)"

definition Task_to_dict :: "task \<Rightarrow> pyval" where
  "Task_to_dict t =
     PDict [(''id'', PStr (task_id t)),
            (''handler'', PStr (task_handler t)),
            (''parameters'', PDict (task_parameters t)),
            (''description'', task_description t),
            (''status'', PStr (status_str (task_status t)))]"

definition Task_from_dict :: "pyval \<Rightarrow> task built" where
  "Task_from_dict data =
     (case data of
        PDict d \<Rightarrow>
          (case dict_get d ''id'' of
             None \<Rightarrow> Raises (KeyError ''id'')
           | Some i \<Rightarrow>
               task_of_fields i
                 (get_or d ''handler'' (get_or d ''type'' (PStr [])))
                 (get_or d ''parameters'' (get_or d ''params'' (PDict [])))
                 (get_or d ''description'' (PStr [])))
      | PObject _ _ _ \<Rightarrow> IllTyped
      | _ \<Rightarrow> Raises (TypeError (not_subscriptable data)))"

text \<open>The task constructed inside \<^verbatim>\<open>Workflow.from_yaml\<close>.\<close>

definition Task_from_yaml :: "pyval \<Rightarrow> task built" where
  "Task_from_yaml task_data =
     (case task_data of
        PDict d \<Rightarrow>
          (case dict_get d ''id'' of
             None \<Rightarrow> Raises (KeyError ''id'')
           | Some i \<Rightarrow>
               (case dict_get d ''handler'' of
                  None \<Rightarrow> Raises (KeyError ''handler'')
                | Some h \<Rightarrow>
                    task_of_fields i h
                      (get_or d ''parameters'' (PDict []))
                      (get_or d ''description'' (PStr []))))
      | PObject _ _ _ \<Rightarrow> IllTyped
      | _ \<Rightarrow> Raises (TypeError (not_subscriptable task_data)))"

definition Workflow_init :: "world \<Rightarrow> string \<Rightarrow> pyval \<Rightarrow> pyval \<Rightarrow> workflow \<times> world" where
  "Workflow_init wd i n d =
     (let (c, wd1) = datetime_now wd;
          (u, wd2) = datetime_now wd1
      in (\<lparr> wf_id = i, wf_name = n, wf_description = d, wf_tasks = [],
            wf_status = Pending, wf_result = PNone, wf_error = None,
            wf_current_task_index = - 1, wf_created_at = c, wf_updated_at = u \<rparr>, wd2))"

definition add_task :: "world \<Rightarrow> workflow \<Rightarrow> task \<Rightarrow> workflow \<times> world" where
  "add_task wd w t =
     (let (u, wd1) = datetime_now wd
      in (w\<lparr>wf_tasks := wf_tasks w @ [t], wf_updated_at := u\<rparr>, wd1))"

text \<open>
  What \<^verbatim>\<open>for task_data in data.get("tasks", [])\<close> runs over: the elements of a list,
  the keys of a mapping, the characters of a string (one element for each byte here; the
  first element already makes the loop body raise); nothing else can be iterated.
\<close>

definition iterate :: "pyval \<Rightarrow> pyval list built" where
  "iterate v =
     (case v of
        PList xs \<Rightarrow> Built xs
      | PDict d \<Rightarrow> Built (map (\<lambda>kv. PStr (fst kv)) d)
      | PStr s \<Rightarrow> Built (map (\<lambda>c. PStr [c]) s)
      | PObject _ _ _ \<Rightarrow> IllTyped
      | _ \<Rightarrow> Raises (TypeError (quoted (type_name v) @ '' object is not iterable'')))"

fun add_tasks_from ::
  "(pyval \<Rightarrow> task built) \<Rightarrow> world \<Rightarrow> workflow \<Rightarrow> pyval list \<Rightarrow> workflow built \<times> world" where
  "add_tasks_from mk wd w [] = (Built w, wd)"
| "add_tasks_from mk wd w (task_data # rest) =
     (case mk task_data of
        Built t \<Rightarrow> (let (w1, wd1) = add_task wd w t in add_tasks_from mk wd1 w1 rest)
      | Raises e \<Rightarrow> (Raises e, wd)
      | IllTyped \<Rightarrow> (IllTyped, wd))"

definition workflow_of_document ::
  "(pyval \<Rightarrow> task built) \<Rightarrow> world \<Rightarrow> pyval \<Rightarrow> workflow built \<times> world" where
  "workflow_of_document mk wd data =
     (case data of
        PDict d \<Rightarrow>
          (case dict_get d ''id'' of
             None \<Rightarrow> (Raises (KeyError ''id''), wd)
           | Some i \<Rightarrow>
               (case dict_get d ''name'' of
                  None \<Rightarrow> (Raises (KeyError ''name''), wd)
                | Some n \<Rightarrow>
                    (case i of
                       PStr i' \<Rightarrow>
                         (let (w, wd1) =
                                Workflow_init wd i' n (get_or d ''description'' (PStr []))
                          in (case iterate (get_or d ''tasks'' (PList [])) of
                                Built tds \<Rightarrow> add_tasks_from mk wd1 w tds
                              | Raises e \<Rightarrow> (Raises e, wd1)
                              | IllTyped \<Rightarrow> (IllTyped, wd1)))
                     | _ \<Rightarrow> (IllTyped, wd))))
      | PObject _ _ _ \<Rightarrow> (IllTyped, wd)
      | _ \<Rightarrow> (Raises (TypeError (not_subscriptable data)), wd))"

definition Workflow_to_dict :: "workflow \<Rightarrow> pyval" where
  "Workflow_to_dict w =
     PDict [(''id'', PStr (wf_id w)),
            (''name'', wf_name w),
            (''description'', wf_description w),
            (''tasks'', PList (map Task_to_dict (wf_tasks w)))]"

definition Workflow_from_dict :: "world \<Rightarrow> pyval \<Rightarrow> workflow built \<times> world" where
  "Workflow_from_dict wd data = workflow_of_document Task_from_dict wd data"

definition Workflow_from_yaml :: "world \<Rightarrow> pyval \<Rightarrow> workflow built \<times> world" where
  "Workflow_from_yaml wd data = workflow_of_document Task_from_yaml wd data"

section \<open>The workflow manager\<close>

text \<open>
  The two directories, each a map from the name of a file, relative to the directory, to
  what the file holds: a document (the text of a file is kept parsed:
  \<^verbatim>\<open>yaml.safe_load\<close> of a template, \<^verbatim>\<open>json.load\<close> of an instance), or a text
  on which the parser raises, with the parser's message. A file name is the id followed
  by the extension; an id with a path separator names a file in a subdirectory, and
  whether that file can be opened for writing is for the file system to say:
  \<open>open_error name\<close> is the exception that \<^verbatim>\<open>open(path, 'w')\<close> raises for the file
  \<open>name\<close> of the instance directory, \<open>None\<close> when it opens the file.
\<close>

datatype stored = Document pyval | Unparsable string

record manager =
  templates :: "string \<rightharpoonup> stored"
  instances :: "string \<rightharpoonup> stored"
  open_error :: "string \<Rightarrow> py_exn option"

text \<open>
  \<^verbatim>\<open>json.dump\<close> raises \<^verbatim>\<open>TypeError\<close> at the first object that is no JSON value;
  \<open>unserializable\<close> finds the class of that object, in the order in which the encoder
  walks the value.
\<close>

fun unserializable :: "pyval \<Rightarrow> string option"
  and unserializable_list :: "pyval list \<Rightarrow> string option"
  and unserializable_items :: "(string \<times> pyval) list \<Rightarrow> string option" where
  "unserializable PNone = None"
| "unserializable (PBool b) = None"
| "unserializable (PInt i) = None"
| "unserializable (PStr s) = None"
| "unserializable (PList xs) = unserializable_list xs"
| "unserializable (PDict d) = unserializable_items d"
| "unserializable (PObject cls tv hashable) = Some cls"
| "unserializable_list [] = None"
| "unserializable_list (x # xs) =
     (case unserializable x of Some cls \<Rightarrow> Some cls | None \<Rightarrow> unserializable_list xs)"
| "unserializable_items [] = None"
| "unserializable_items (kv # d) =
     (case unserializable (snd kv) of
        Some cls \<Rightarrow> Some cls
      | None \<Rightarrow> unserializable_items d)"

definition not_serializable_msg :: "string \<Rightarrow> string" where
  "not_serializable_msg cls = ''Object of type '' @ cls @ '' is not JSON serializable''"

text \<open>
  \<^verbatim>\<open>save_workflow_instance\<close>: \<open>Inr\<close> the path that the method returns, \<open>Inl\<close>
  the exception that it lets through. When \<^verbatim>\<open>json.dump\<close> raises, the file has been
  opened and holds the text written up to the object that could not be encoded, which
  is no JSON text.
\<close>

definition save_workflow_instance :: "manager \<Rightarrow> workflow \<Rightarrow> (py_exn + string) \<times> manager" where
  "save_workflow_instance mgr w =
     (let file_path = wf_id w @ ''.json''
      in (case open_error mgr file_path of
            Some e \<Rightarrow> (Inl e, mgr)
          | None \<Rightarrow>
              (case unserializable (Workflow_to_dict w) of
                 Some cls \<Rightarrow>
                   (Inl (TypeError (not_serializable_msg cls)),
                    mgr\<lparr>instances := (instances mgr)(file_path \<mapsto> Unparsable [])\<rparr>)
               | None \<Rightarrow>
                   (Inr file_path,
                    mgr\<lparr>instances :=
                          (instances mgr)(file_path \<mapsto> Document (Workflow_to_dict w))\<rparr>))))"

text \<open>
  \<^verbatim>\<open>load_workflow_instance\<close> returns \<^verbatim>\<open>None\<close> for a missing file, for a text that
  does not parse and for a document that makes \<^verbatim>\<open>from_dict\<close> raise.
\<close>

definition load_workflow_instance ::
  "manager \<Rightarrow> world \<Rightarrow> string \<Rightarrow> workflow option built \<times> world" where
  "load_workflow_instance mgr wd workflow_id =
     (case instances mgr (workflow_id @ ''.json'') of
        None \<Rightarrow> (Built None, wd)
      | Some (Unparsable msg) \<Rightarrow> (Built None, wd)
      | Some (Document data) \<Rightarrow>
          (case Workflow_from_dict wd data of
             (Built w, wd1) \<Rightarrow> (Built (Some w), wd1)
           | (Raises e, wd1) \<Rightarrow> (Built None, wd1)
           | (IllTyped, wd1) \<Rightarrow> (IllTyped, wd1)))"

definition delete_workflow_instance :: "manager \<Rightarrow> string \<Rightarrow> bool \<times> manager" where
  "delete_workflow_instance mgr workflow_id =
     (let file_path = workflow_id @ ''.json''
      in (case instances mgr file_path of
            None \<Rightarrow> (False, mgr)
          | Some _ \<Rightarrow> (True, mgr\<lparr>instances := (instances mgr)(file_path := None)\<rparr>)))"

definition no_template_msg :: "string \<Rightarrow> string" where
  "no_template_msg template_id =
     [CHR 0xED, CHR 0x85, CHR 0x9C, CHR 0xED, CHR 0x94, CHR 0x8C, CHR 0xEB, CHR 0xA6,
      CHR 0xBF, CHR 0xEC, CHR 0x9D, CHR 0x84, CHR 0x20, CHR 0xEC, CHR 0xB0, CHR 0xBE,
      CHR 0xEC, CHR 0x9D, CHR 0x84, CHR 0x20, CHR 0xEC, CHR 0x88, CHR 0x98, CHR 0x20,
      CHR 0xEC, CHR 0x97, CHR 0x86, CHR 0xEC, CHR 0x8A, CHR 0xB5, CHR 0xEB, CHR 0x8B,
      CHR 0x88, CHR 0xEB, CHR 0x8B, CHR 0xA4, CHR '':'', CHR 0x20]
     @ template_id"

text \<open>
  \<^verbatim>\<open>create_workflow_from_template\<close>; \<open>suffix\<close> stands for the eight hexadecimal
  digits \<^verbatim>\<open>uuid.uuid4().hex[:8]\<close> drawn by the call. What
  \<^verbatim>\<open>Workflow.from_yaml\<close> or \<^verbatim>\<open>save_workflow_instance\<close> raises leaves the method.
\<close>

definition create_workflow_from_template ::
  "manager \<Rightarrow> world \<Rightarrow> string \<Rightarrow> string \<Rightarrow> workflow built \<times> manager \<times> world" where
  "create_workflow_from_template mgr wd template_id suffix =
     (case templates mgr (template_id @ ''.yaml'') of
        None \<Rightarrow> (Raises (FileNotFoundError (no_template_msg template_id)), mgr, wd)
      | Some (Unparsable msg) \<Rightarrow> (Raises (YAMLError msg), mgr, wd)
      | Some (Document data) \<Rightarrow>
          (case Workflow_from_yaml wd data of
             (Built w, wd1) \<Rightarrow>
               (let (c, wd2) = datetime_now wd1;
                    w1 = w\<lparr>wf_id := wf_id w @ ''_'' @ suffix,
                           wf_created_at := c, wf_updated_at := c\<rparr>
                in (case save_workflow_instance mgr w1 of
                      (Inr file_path, mgr1) \<Rightarrow> (Built w1, mgr1, wd2)
                    | (Inl e, mgr1) \<Rightarrow> (Raises e, mgr1, wd2)))
           | (Raises e, wd1) \<Rightarrow> (Raises e, mgr, wd1)
           | (IllTyped, wd1) \<Rightarrow> (IllTyped, mgr, wd1)))"

section \<open>Sample values\<close>

text \<open>
  A small engine, world and workflow on which the theorems below are instantiated: the
  handler \<open>echo\<close> returns its parameters, the handler \<open>boom\<close> raises, the handler
  \<open>interrupted\<close> raises outside the class \<^verbatim>\<open>Exception\<close>; the three observers are
  registered and return.
\<close>

definition sample_engine :: engine where
  "sample_engine =
     (register_task_handler
        (register_task_handler
           (register_task_handler WorkflowEngine_init ''echo'' (\<lambda>params. Inr (PDict params)))
           ''boom'' (\<lambda>params. Inl (HandlerError ''boom'')))
        ''interrupted'' (\<lambda>params. Inl (BaseExc ''cancelled'')))
     \<lparr>on_task_start := Some (\<lambda>tid. None),
      on_task_complete := Some (\<lambda>tid r. None),
      on_task_fail := Some (\<lambda>tid msg. None)\<rparr>"

text \<open>The same engine with one observer that raises.\<close>

definition start_raising_engine :: engine where
  "start_raising_engine =
     sample_engine\<lparr>on_task_start := Some (\<lambda>tid. Some (HandlerError ''observer''))\<rparr>"

definition complete_raising_engine :: engine where
  "complete_raising_engine =
     sample_engine\<lparr>on_task_complete := Some (\<lambda>tid r. Some (HandlerError ''observer''))\<rparr>"

definition fail_raising_engine :: engine where
  "fail_raising_engine =
     sample_engine\<lparr>on_task_fail := Some (\<lambda>tid msg. Some (HandlerError ''observer''))\<rparr>"

definition sample_world :: world where
  "sample_world = \<lparr> now = 0, notified = [] \<rparr>"

definition first_task :: task where
  "first_task = Task_init ''t1'' ''echo'' [(''text'', PStr ''hello'')] PNone"

definition second_task :: task where
  "second_task =
     Task_init ''t2'' ''echo''
       [(''previous_result'', PStr ''$t1''), (''word'', PStr ''$t1.text'')] PNone"

definition boom_task :: task where
  "boom_task = Task_init ''t3'' ''boom'' [] PNone"

definition orphan_task :: task where
  "orphan_task = Task_init ''t4'' ''nowhere'' [] PNone"

definition interrupted_task :: task where
  "interrupted_task = Task_init ''t5'' ''interrupted'' [] PNone"

text \<open>A task with a date among its parameters.\<close>

definition dated_task :: task where
  "dated_task = Task_init ''t6'' ''echo'' [(''since'', PObject ''date'' True True)] PNone"

text \<open>A task that has the id of \<open>first_task\<close> and other parameters.\<close>

definition namesake_task :: task where
  "namesake_task = Task_init ''t1'' ''echo'' [(''text'', PStr ''again'')] PNone"

definition sample_workflow :: "task list \<Rightarrow> workflow" where
  "sample_workflow ts =
     \<lparr> wf_id = ''demo'', wf_name = PStr ''Demo'', wf_description = PStr [], wf_tasks = ts,
       wf_status = Pending, wf_result = PNone, wf_error = None,
       wf_current_task_index = - 1, wf_created_at = 0, wf_updated_at = 0 \<rparr>"

definition first_result :: pyval where
  "first_result = PDict [(''text'', PStr ''hello'')]"

definition second_result :: pyval where
  "second_result = PDict [(''previous_result'', first_result), (''word'', PStr ''hello'')]"

definition namesake_result :: pyval where
  "namesake_result = PDict [(''text'', PStr ''again'')]"

text \<open>Three courses of the cancellation flag.\<close>

definition never :: "nat \<Rightarrow> bool" where
  "never j = False"

definition stop_at_second :: "nat \<Rightarrow> bool" where
  "stop_at_second j = (j = 1)"

definition stop_at_fourth :: "nat \<Rightarrow> bool" where
  "stop_at_fourth j = (j = 3)"

definition finished_task :: task where
  "finished_task = first_task\<lparr>task_status := Completed, task_result := first_result\<rparr>"

text \<open>
  An instance directory without subdirectories: a file whose name has a path separator
  cannot be opened for writing.
\<close>

definition no_directory :: "string \<Rightarrow> py_exn" where
  "no_directory name = FileNotFoundError (''[Errno 2] No such file or directory: '' @ quoted name)"

definition flat_directory :: "string \<Rightarrow> py_exn option" where
  "flat_directory name = (if CHR ''/'' \<in> set name then Some (no_directory name) else None)"

definition empty_manager :: manager where
  "empty_manager =
     \<lparr> templates = Map.empty, instances = Map.empty, open_error = flat_directory \<rparr>"

text \<open>
  A template store with four templates, each in the file named by its id: a complete
  one with a blank description, one without a name, one with a date among its
  parameters, and one in a subdirectory of the template directory.
\<close>

definition daily_template :: pyval where
  "daily_template =
     PDict [(''id'', PStr ''daily''), (''name'', PStr ''Daily digest''),
            (''description'', PNone),
            (''tasks'', PList [PDict [(''id'', PStr ''t1''), (''handler'', PStr ''echo''),
                                      (''parameters'', PDict [(''text'', PStr ''hello'')])]])]"

definition nameless_template :: pyval where
  "nameless_template = PDict [(''id'', PStr ''nameless''), (''tasks'', PList [])]"

definition dated_template :: pyval where
  "dated_template =
     PDict [(''id'', PStr ''dated''), (''name'', PStr ''Dated''),
            (''tasks'', PList [PDict [(''id'', PStr ''t1''), (''handler'', PStr ''echo''),
                                      (''parameters'',
                                         PDict [(''since'', PObject ''date'' True True)])]])]"

definition weekly_template :: pyval where
  "weekly_template =
     PDict [(''id'', PStr ''team/weekly''), (''name'', PStr ''Weekly''), (''tasks'', PList [])]"

definition template_manager :: manager where
  "template_manager =
     \<lparr> templates = [''daily.yaml'' \<mapsto> Document daily_template,
                    ''nameless.yaml'' \<mapsto> Document nameless_template,
                    ''dated.yaml'' \<mapsto> Document dated_template,
                    ''team/weekly.yaml'' \<mapsto> Document weekly_template],
       instances = Map.empty, open_error = flat_directory \<rparr>"

definition weekly_loaded :: workflow where
  "weekly_loaded =
     \<lparr> wf_id = ''team/weekly'', wf_name = PStr ''Weekly'', wf_description = PStr [],
       wf_tasks = [], wf_status = Pending, wf_result = PNone, wf_error = None,
       wf_current_task_index = - 1, wf_created_at = 0, wf_updated_at = 1 \<rparr>"

definition daily_loaded :: workflow where
  "daily_loaded =
     \<lparr> wf_id = ''daily'', wf_name = PStr ''Daily digest'', wf_description = PNone,
       wf_tasks = [first_task], wf_status = Pending, wf_result = PNone, wf_error = None,
       wf_current_task_index = - 1, wf_created_at = 0, wf_updated_at = 2 \<rparr>"

text \<open>Projections used to read the outcome of a call in a closed statement.\<close>

definition the_built :: "'a built \<Rightarrow> 'a option" where
  "the_built b = (case b of Built x \<Rightarrow> Some x | _ \<Rightarrow> None)"

definition loaded_tasks :: "workflow option built \<times> world \<Rightarrow> task list" where
  "loaded_tasks r = (case fst r of Built (Some w) \<Rightarrow> wf_tasks w | _ \<Rightarrow> [])"

section \<open>Unfolding bundles\<close>

lemmas sample_defs = sample_engine_def sample_world_def first_task_def second_task_def
  boom_task_def orphan_task_def interrupted_task_def namesake_task_def dated_task_def
  sample_workflow_def
  first_result_def second_result_def namesake_result_def
  Task_init_def register_task_handler_def WorkflowEngine_init_def
  start_raising_engine_def complete_raising_engine_def fail_raising_engine_def

lemmas resolve_defs = process_params_def process_previous_def dict_get_def strip_dollar_def
  starts_with_dollar_def resolve_value_def split_dot_def call_handler_def

lemmas task_defs = execute_task_def try_block_def except_block_def
  datetime_now_def notify_def

lemmas observer_defs = start_returns_def complete_returns_def fail_returns_def
  task_returns_def

lemmas doc_defs = Workflow_from_yaml_def Workflow_from_dict_def workflow_of_document_def
  get_or_def Task_from_yaml_def Task_from_dict_def task_of_fields_def params_arg_def
  iterate_def Workflow_init_def add_task_def Task_to_dict_def Workflow_to_dict_def

section \<open>Parameter resolution: what it returns\<close>

lemma dict_set_keys: "fst ` set (dict_set d k v) = insert k (fst ` set d)"
proof (induction d)
  case Nil
  show ?case by simp
next
  case (Cons a d)
  obtain k' v' where a: "a = (k', v')" by (cases a)
  show ?case
    by (cases "k' = k") (simp_all add: a Cons.IH insert_commute)
qed

lemma dict_set_distinct: "distinct (map fst d) \<Longrightarrow> distinct (map fst (dict_set d k v))"
proof (induction d)
  case Nil
  show ?case by simp
next
  case (Cons a d)
  obtain k' v' where a: "a = (k', v')" by (cases a)
  from Cons show ?case
    by (cases "k' = k") (simp_all add: a dict_set_keys)
qed

lemma copy_params_keys:
  "fst ` set (copy_params results ps acc) =
     fst ` set acc \<union> (fst ` set ps - {''previous_result''})"
proof (induction results ps acc rule: copy_params.induct)
  case (1 results processed)
  show ?case by simp
next
  case (2 results key val rest processed)
  show ?case
  proof (cases "key = ''previous_result''")
    case True
    with 2 show ?thesis by auto
  next
    case False
    with 2 show ?thesis by (simp add: dict_set_keys) blast
  qed
qed

lemma copy_params_distinct:
  "distinct (map fst acc) \<Longrightarrow> distinct (map fst (copy_params results ps acc))"
  by (induction results ps acc rule: copy_params.induct) (simp_all add: dict_set_distinct)

lemma dict_has_iff: "dict_has d k \<longleftrightarrow> dict_get d k \<noteq> None"
  by (simp add: dict_has_def dict_get_def map_of_eq_None_iff)

lemma process_params_keys:
  assumes "process_params params results = Inr out"
  shows "distinct (map fst out)"
    and "fst ` set out - {''previous_result''} = fst ` set params - {''previous_result''}"
    and "''previous_result'' \<in> fst ` set out \<longleftrightarrow>
           (\<exists>v tid. dict_get params ''previous_result'' = Some v \<and> truthy v
              \<and> strip_dollar v = PStr tid \<and> dict_has results tid)"
proof -
  from assms obtain acc where acc: "process_previous params results = Inr acc"
    and out: "out = copy_params results params acc"
    by (auto simp: process_params_def split: sum.splits)
  have shape: "acc = [] \<or> (\<exists>r. acc = [(''previous_result'', r)])"
    using acc by (auto simp: process_previous_def split: option.splits if_splits pyval.splits)
  then show "distinct (map fst out)"
    unfolding out by (auto intro: copy_params_distinct)
  from shape show "fst ` set out - {''previous_result''}
      = fst ` set params - {''previous_result''}"
    unfolding out copy_params_keys by auto
  have "''previous_result'' \<in> fst ` set out \<longleftrightarrow> acc \<noteq> []"
    using shape unfolding out copy_params_keys by auto
  also have "\<dots> \<longleftrightarrow> (\<exists>v tid. dict_get params ''previous_result'' = Some v \<and> truthy v
              \<and> strip_dollar v = PStr tid \<and> dict_has results tid)"
    using acc
    by (auto simp: process_previous_def dict_has_iff
        split: option.splits if_splits pyval.splits)
  finally show "''previous_result'' \<in> fst ` set out \<longleftrightarrow>
           (\<exists>v tid. dict_get params ''previous_result'' = Some v \<and> truthy v
              \<and> strip_dollar v = PStr tid \<and> dict_has results tid)" .
qed

lemma process_params_returns:
  assumes "\<forall>v. dict_get params ''previous_result'' = Some v \<longrightarrow>
             \<not> truthy v \<or> (\<exists>s. v = PStr s) \<or> (\<exists>b. v = PBool b) \<or> (\<exists>i. v = PInt i)
             \<or> (\<exists>cls tv. v = PObject cls tv True)"
  shows "\<exists>out. process_params params results = Inr out"
  using assms
  by (auto simp: process_params_def process_previous_def strip_dollar_def
      split: option.splits pyval.splits sum.splits)

text \<open>
  Claim C2. With the accumulator \<open>{"t1": {"text": "hello"}}\<close>, the value
  \<open>"$t1.text"\<close> resolves to \<open>"hello"\<close>, \<open>"$t1.missing"\<close> to \<open>None\<close>,
  \<open>"$unknown.text"\<close> stays the literal string, and the key \<open>previous_result\<close> with
  the value \<open>"$t1"\<close> receives the whole prior result.
\<close>

theorem resolution_examples:
  "process_params
     [(''text'', PStr ''$t1.text''), (''gone'', PStr ''$t1.missing''),
      (''other'', PStr ''$unknown.text''), (''previous_result'', PStr ''$t1'')]
     [(''t1'', PDict [(''text'', PStr ''hello'')])]
   = Inr [(''previous_result'', PDict [(''text'', PStr ''hello'')]),
          (''text'', PStr ''hello''), (''gone'', PNone),
          (''other'', PStr ''$unknown.text'')]"
  by (simp add: process_params_def process_previous_def dict_get_def strip_dollar_def
      starts_with_dollar_def resolve_value_def split_dot_def)

text \<open>
  Claim C3, as the code has it. For a reference whose task id is in the accumulator the
  resolved value is the walk of the path from that task's result; a step of the walk
  descends into a keyed mapping that has the segment as a key; in every other case, a
  sequence among them whatever the segment reads as, the value becomes \<open>None\<close> and the
  segments that remain are not walked.
\<close>

theorem walk_descends_into_mappings_only:
  assumes "starts_with_dollar s" and "split_dot (tl s) = tid # segs"
    and "dict_get results tid = Some result"
  shows "resolve_value results (PStr s) = walk_path result segs
       \<and> (\<forall>d seg rest v. dict_get d seg = Some v \<longrightarrow>
            walk_path (PDict d) (seg # rest) = walk_path v rest)
       \<and> (\<forall>cur seg rest. \<not> (\<exists>d v. cur = PDict d \<and> dict_get d seg = Some v) \<longrightarrow>
            walk_path cur (seg # rest) = PNone)
       \<and> (\<forall>xs seg rest. walk_path (PList xs) (seg # rest) = PNone)"
  using assms
  by (auto simp: resolve_value_def split: pyval.splits option.splits)

theorem walk_descends_into_mappings_only_witness:
  "starts_with_dollar ''$t1.items.0''
   \<and> split_dot (tl ''$t1.items.0'') = ''t1'' # [''items'', ''0'']
   \<and> dict_get [(''t1'', PDict [(''items'', PList [PStr ''a''])])] ''t1''
       = Some (PDict [(''items'', PList [PStr ''a''])])
   \<and> resolve_value [(''t1'', PDict [(''items'', PList [PStr ''a''])])] (PStr ''$t1.items.0'')
       = PNone"
proof -
  have h1: "starts_with_dollar ''$t1.items.0''"
    by (simp add: starts_with_dollar_def)
  have h2: "split_dot (tl ''$t1.items.0'') = ''t1'' # [''items'', ''0'']"
    by (simp add: split_dot_def)
  have h3: "dict_get [(''t1'', PDict [(''items'', PList [PStr ''a''])])] ''t1''
       = Some (PDict [(''items'', PList [PStr ''a''])])"
    by (simp add: dict_get_def)
  from walk_descends_into_mappings_only [OF h1 h2 h3] h1 h2 h3 show ?thesis
    by (simp add: dict_get_def)
qed

text \<open>
  The claim as worded asks for more: a segment that reads as an index within range is to
  select that element of a sequence. On the result \<open>["a"]\<close> and the reference
  \<open>"$t1.0"\<close> the wording gives \<open>"a"\<close>; the engine gives \<open>None\<close>.
\<close>

theorem walk_sequence_counterexample:
  "spec_walk (PList [PStr ''a'']) [''0''] = PStr ''a''
   \<and> resolve_value [(''t1'', PList [PStr ''a''])] (PStr ''$t1.0'') = PNone"
  by (simp add: resolve_value_def starts_with_dollar_def split_dot_def dict_get_def
      parse_index_def is_digit_def)

text \<open>
  Claim C9 says that parameter resolution never raises. A list under the key
  \<open>previous_result\<close> is looked up in the accumulator as it is, and the lookup raises
  \<^verbatim>\<open>TypeError\<close>; under any other key the same list passes through
  (\<open>process_params_returns\<close> and \<open>process_params_keys\<close> above cover the calls
  that return).
\<close>

theorem unhashable_previous_result_raises:
  "process_params [(''previous_result'', PList [PStr ''t1''])] []
     = Inl (TypeError (''unhashable type: '' @ quoted ''list''))"
  by (simp add: process_params_def process_previous_def dict_get_def strip_dollar_def
      unhashable_def)

section \<open>A single task\<close>

lemma call_handler_marked:
  "call_handler eng (t\<lparr>task_status := a, task_start_time := b\<rparr>) prev = call_handler eng t prev"
  by (simp add: call_handler_def cong: option.case_cong sum.case_cong)

lemma execute_task_returns:
  assumes "task_returns eng prev t r"
  shows "\<exists>wd'. execute_task eng wd t prev =
           (Inr r,
            t\<lparr>task_status := Completed, task_start_time := Some (now wd),
              task_result := r, task_end_time := Some (Suc (now wd))\<rparr>, wd')"
  using assms
  by (auto simp: task_returns_def start_returns_def complete_returns_def execute_task_def
      try_block_def datetime_now_def notify_def call_handler_marked Let_def
      split: option.splits)

lemma execute_task_raises:
  assumes "start_returns eng t" and "call_handler eng t prev = Inl e"
    and "is_Exception e" and "fail_returns eng t e"
  shows "\<exists>wd'. execute_task eng wd t prev =
           (Inl e,
            t\<lparr>task_status := Failed, task_start_time := Some (now wd),
              task_error := Some (exn_str e), task_end_time := Some (Suc (now wd))\<rparr>, wd')"
  using assms
  by (auto simp: start_returns_def fail_returns_def execute_task_def try_block_def
      except_block_def datetime_now_def notify_def call_handler_marked Let_def
      split: option.splits)

text \<open>
  Claim C10, as the code has it. When the start observer returns, a task whose handler
  type is not registered is itself marked: its status becomes \<open>failed\<close>, the message
  of the error is stored in \<open>task.error\<close>, its end time is set, and the observer of
  failures, when registered, is called with the task id and the message. The error then
  propagates, unless the observer of failures raises, whose exception propagates in its
  place. The outcome is the one of a registered handler that raises the same error.
\<close>

theorem missing_handler_fails_task:
  assumes "task_handlers eng (task_handler t) = None" and "start_returns eng t"
  shows "case execute_task eng wd t prev of
           (out, t', wd') \<Rightarrow>
             task_status t' = Failed
           \<and> task_error t' = Some (no_handler_msg (task_handler t))
           \<and> task_end_time t' = Some (Suc (now wd))
           \<and> notified wd' =
               notified wd
               @ (if on_task_start eng = None then [] else [TaskStart (task_id t)])
               @ (if on_task_fail eng = None then []
                  else [TaskFail (task_id t) (no_handler_msg (task_handler t))])
           \<and> out = Inl (case on_task_fail eng of
                          None \<Rightarrow> ValueError (no_handler_msg (task_handler t))
                        | Some f \<Rightarrow>
                            (case f (task_id t) (no_handler_msg (task_handler t)) of
                               None \<Rightarrow> ValueError (no_handler_msg (task_handler t))
                             | Some e2 \<Rightarrow> e2))
           \<and> ((\<exists>params. process_params (task_parameters t) prev = Inr params) \<longrightarrow>
                execute_task
                  (register_task_handler eng (task_handler t)
                     (\<lambda>params. Inl (ValueError (no_handler_msg (task_handler t)))))
                  wd t prev
                = (out, t', wd'))"
  using assms
  by (auto simp: task_defs start_returns_def call_handler_def register_task_handler_def
      Let_def split: option.splits)

theorem missing_handler_fails_task_witness:
  "task_handlers sample_engine (task_handler orphan_task) = None
   \<and> start_returns sample_engine orphan_task
   \<and> process_params (task_parameters orphan_task) [] = Inr []
   \<and> execute_task sample_engine sample_world orphan_task []
     = (Inl (ValueError (no_handler_msg ''nowhere'')),
        orphan_task\<lparr>task_status := Failed, task_start_time := Some 0,
          task_error := Some (no_handler_msg ''nowhere''), task_end_time := Some 1\<rparr>,
        \<lparr> now = 2,
          notified = [TaskStart ''t4'', TaskFail ''t4'' (no_handler_msg ''nowhere'')] \<rparr>)
   \<and> execute_task
        (register_task_handler sample_engine (task_handler orphan_task)
           (\<lambda>params. Inl (ValueError (no_handler_msg (task_handler orphan_task)))))
        sample_world orphan_task []
     = execute_task sample_engine sample_world orphan_task []"
proof -
  have h: "task_handlers sample_engine (task_handler orphan_task) = None"
    by (simp add: sample_defs)
  have s: "start_returns sample_engine orphan_task"
    by (simp add: sample_defs start_returns_def)
  have p: "process_params (task_parameters orphan_task) [] = Inr []"
    by (simp add: sample_defs resolve_defs)
  have ex: "execute_task sample_engine sample_world orphan_task []
     = (Inl (ValueError (no_handler_msg ''nowhere'')),
        orphan_task\<lparr>task_status := Failed, task_start_time := Some 0,
          task_error := Some (no_handler_msg ''nowhere''), task_end_time := Some 1\<rparr>,
        \<lparr> now = 2,
          notified = [TaskStart ''t4'', TaskFail ''t4'' (no_handler_msg ''nowhere'')] \<rparr>)"
    by (simp add: task_defs call_handler_def sample_defs Let_def)
  from missing_handler_fails_task [OF h s, of sample_world "[]"] h s p ex show ?thesis
    by (simp split: prod.splits)
qed

text \<open>
  The claim as worded speaks of every engine. With a start observer that raises, the
  handler is never looked up: the task stays \<open>running\<close>, without error and without
  end time, and the exception of the observer is what propagates. With a failure
  observer that raises, its exception propagates instead of the configuration error.
\<close>

theorem missing_handler_counterexample:
  "task_handlers start_raising_engine (task_handler orphan_task) = None
   \<and> execute_task start_raising_engine sample_world orphan_task []
     = (Inl (HandlerError ''observer''),
        orphan_task\<lparr>task_status := Running, task_start_time := Some 0\<rparr>,
        \<lparr> now = 1, notified = [TaskStart ''t4''] \<rparr>)
   \<and> task_error orphan_task = None \<and> task_end_time orphan_task = None
   \<and> fst (execute_task fail_raising_engine sample_world orphan_task [])
       = Inl (HandlerError ''observer'')"
  by (simp add: task_defs call_handler_def sample_defs Let_def)

section \<open>The run of a workflow\<close>

lemma flag_unset: "\<not> cancel_execution eng \<Longrightarrow> eng\<lparr>cancel_execution := False\<rparr> = eng"
  by simp

lemma call_handler_flag:
  "call_handler (eng\<lparr>cancel_execution := b\<rparr>) t acc = call_handler eng t acc"
  by (simp add: call_handler_def)

lemma task_returns_flag:
  "task_returns (eng\<lparr>cancel_execution := b\<rparr>) acc t r = task_returns eng acc t r"
  by (simp add: task_returns_def start_returns_def complete_returns_def call_handler_flag)

lemma tasks_return_flag:
  "tasks_return (eng\<lparr>cancel_execution := b\<rparr>) acc ts rs = tasks_return eng acc ts rs"
  by (induction eng acc ts rs rule: tasks_return.induct) (simp_all add: task_returns_flag)

lemma start_returns_flag:
  "start_returns (eng\<lparr>cancel_execution := b\<rparr>) t = start_returns eng t"
  by (simp add: start_returns_def)

lemma fail_returns_flag:
  "fail_returns (eng\<lparr>cancel_execution := b\<rparr>) t e = fail_returns eng t e"
  by (simp add: fail_returns_def)

lemma tasks_return_length: "tasks_return eng acc ts rs \<Longrightarrow> length rs = length ts"
  by (induction eng acc ts rs rule: tasks_return.induct) simp_all

lemma tasks_return_handlers:
  "tasks_return eng acc ts rs \<Longrightarrow> handlers_return eng acc ts rs"
  by (induction eng acc ts rs rule: tasks_return.induct) (simp_all add: task_returns_def)

lemma dict_set_fresh: "k \<notin> fst ` set d \<Longrightarrow> dict_set d k v = d @ [(k, v)]"
  by (induction d) auto

lemma results_of_distinct:
  "distinct (map fst acc @ map task_id ts) \<Longrightarrow> length rs = length ts \<Longrightarrow>
   results_of acc ts rs = acc @ zip (map task_id ts) rs"
proof (induction acc ts rs rule: results_of.induct)
  case (1 acc t ts r rs)
  then have fresh: "task_id t \<notin> fst ` set acc"
    by auto
  have "distinct (map fst (dict_set acc (task_id t) r) @ map task_id ts)"
    using 1(2) by (auto simp: dict_set_fresh [OF fresh])
  with 1 show ?case
    by (simp add: dict_set_fresh [OF fresh])
qed simp_all

lemma run_tasks_prefix:
  assumes "tasks_return (rs_engine s) (rs_results s) pre rs"
    and "\<forall>j<length pre. \<not> req (i + j)"
    and "\<not> cancel_execution (rs_engine s)"
  shows "\<exists>pre' s'.
           run_tasks req i (pre @ post) s =
             (case run_tasks req (i + length pre) post s' of
                (x, ts', s'') \<Rightarrow> (x, pre' @ ts', s''))
         \<and> length pre' = length pre
         \<and> (\<forall>t\<in>set pre'. task_status t = Completed)
         \<and> map task_result pre' = rs
         \<and> map task_id pre' = map task_id pre
         \<and> rs_engine s' = rs_engine s
         \<and> rs_results s' = results_of (rs_results s) pre rs
         \<and> (pre = [] \<longrightarrow> s' = s)
         \<and> (pre \<noteq> [] \<longrightarrow> rs_index s' = int (i + length pre) - 1)"
  using assms
proof (induction pre arbitrary: i s rs)
  case Nil
  show ?case
    by (rule exI [of _ "[]"], rule exI [of _ s]) (use Nil in \<open>simp split: prod.splits\<close>)
next
  case (Cons t pre)
  let ?eng = "rs_engine s" and ?acc = "rs_results s"
  from Cons.prems(1) obtain r rs' where rs: "rs = r # rs'"
    and r: "task_returns ?eng ?acc t r"
    and rest: "tasks_return ?eng (dict_set ?acc (task_id t) r) pre rs'"
    by (cases rs) auto
  from Cons.prems(2) have noreq: "\<not> req i" and later: "\<forall>j<length pre. \<not> req (Suc i + j)"
    by auto
  define t' where "t' = t\<lparr>task_status := Completed, task_start_time := Some (now (rs_world s)),
              task_result := r, task_end_time := Some (Suc (now (rs_world s)))\<rparr>"
  from execute_task_returns [OF r, of "rs_world s"] obtain wd' where
    ex: "execute_task ?eng (rs_world s) t ?acc = (Inr r, t', wd')"
    unfolding t'_def by blast
  define s1 where "s1 = s\<lparr>rs_world := wd', rs_index := int i,
                          rs_results := dict_set ?acc (task_id t) r\<rparr>"
  have s1: "rs_engine s1 = ?eng" "rs_results s1 = dict_set ?acc (task_id t) r"
    by (simp_all add: s1_def)
  have "\<exists>pre' s'.
           run_tasks req (Suc i) (pre @ post) s1 =
             (case run_tasks req (Suc i + length pre) post s' of
                (x, ts', s'') \<Rightarrow> (x, pre' @ ts', s''))
         \<and> length pre' = length pre
         \<and> (\<forall>t\<in>set pre'. task_status t = Completed)
         \<and> map task_result pre' = rs'
         \<and> map task_id pre' = map task_id pre
         \<and> rs_engine s' = rs_engine s1
         \<and> rs_results s' = results_of (rs_results s1) pre rs'
         \<and> (pre = [] \<longrightarrow> s' = s1)
         \<and> (pre \<noteq> [] \<longrightarrow> rs_index s' = int (Suc i + length pre) - 1)"
    by (rule Cons.IH) (use rest later Cons.prems(3) in \<open>simp_all add: s1\<close>)
  then obtain pre' s' where
    ih: "run_tasks req (Suc i) (pre @ post) s1 =
             (case run_tasks req (Suc i + length pre) post s' of
                (x, ts', s'') \<Rightarrow> (x, pre' @ ts', s''))"
      "length pre' = length pre" "\<forall>t\<in>set pre'. task_status t = Completed"
      "map task_result pre' = rs'" "map task_id pre' = map task_id pre"
      "rs_engine s' = rs_engine s1" "rs_results s' = results_of (rs_results s1) pre rs'"
      "pre = [] \<longrightarrow> s' = s1" "pre \<noteq> [] \<longrightarrow> rs_index s' = int (Suc i + length pre) - 1"
    by blast
  have tid: "task_id t' = task_id t"
    by (simp add: t'_def)
  have step: "run_tasks req i ((t # pre) @ post) s =
      (case run_tasks req (Suc i) (pre @ post) s1 of (x, ts', s'') \<Rightarrow> (x, t' # ts', s''))"
    using Cons.prems(3) noreq ex
    by (simp add: Let_def s1_def flag_unset tid)
  have idx: "rs_index s' = int (i + length (t # pre)) - 1"
    using ih(8,9) by (cases "pre = []") (simp_all add: s1_def)
  have t'_facts: "task_status t' = Completed" "task_result t' = r"
    by (simp_all add: t'_def)
  show ?case
    apply (rule exI [of _ "t' # pre'"], rule exI [of _ s'])
    using step ih(1-7) idx rs s1 t'_facts tid
    by (simp split: prod.splits)
qed

lemma run_tasks_prefix_obtain:
  assumes "tasks_return (rs_engine s) (rs_results s) pre rs"
    and "\<forall>j<length pre. \<not> req (i + j)"
    and "\<not> cancel_execution (rs_engine s)"
  obtains pre' s' where
    "run_tasks req i (pre @ post) s =
       (case run_tasks req (i + length pre) post s' of
          (x, ts', s'') \<Rightarrow> (x, pre' @ ts', s''))"
    "length pre' = length pre" "\<forall>t\<in>set pre'. task_status t = Completed"
    "map task_result pre' = rs" "map task_id pre' = map task_id pre"
    "rs_engine s' = rs_engine s" "rs_results s' = results_of (rs_results s) pre rs"
  using run_tasks_prefix [OF assms, of post] by blast

lemma run_tasks_cancelled:
  "req i \<Longrightarrow> run_tasks req i (t # ts) s =
     (Cancelled, t # ts, s\<lparr>rs_engine := (rs_engine s)\<lparr>cancel_execution := True\<rparr>\<rparr>)"
  by (simp add: Let_def)

lemma run_tasks_aborted:
  assumes "\<not> req i" "\<not> cancel_execution (rs_engine s)"
    and "start_returns (rs_engine s) t"
    and "call_handler (rs_engine s) t (rs_results s) = Inl e"
    and "is_Exception e" and "fail_returns (rs_engine s) t e"
  shows "\<exists>t' s'. run_tasks req i (t # ts) s = (Aborted e, t' # ts, s')
           \<and> task_status t' = Failed \<and> task_error t' = Some (exn_str e)
           \<and> rs_results s' = rs_results s \<and> rs_index s' = int i"
proof -
  from execute_task_raises [OF assms(3-6), of "rs_world s"] obtain wd' where
    "execute_task (rs_engine s) (rs_world s) t (rs_results s) =
       (Inl e, t\<lparr>task_status := Failed, task_start_time := Some (now (rs_world s)),
              task_error := Some (exn_str e), task_end_time := Some (Suc (now (rs_world s)))\<rparr>, wd')"
    by blast
  with assms(1,2) show ?thesis
    by (simp add: Let_def flag_unset)
qed

lemma split_at:
  assumes "1 \<le> k" "k \<le> length xs"
  obtains pre t post where "xs = pre @ t # post" "length pre = k - 1"
    "take (k - 1) xs = pre" "xs ! (k - 1) = t" "drop k xs = post" "drop (k - 1) xs = t # post"
proof -
  have lt: "k - 1 < length xs" using assms by simp
  have "xs = take (k - 1) xs @ xs ! (k - 1) # drop (Suc (k - 1)) xs"
    using lt by (simp add: id_take_nth_drop [symmetric])
  moreover have "drop (k - 1) xs = xs ! (k - 1) # drop (Suc (k - 1)) xs"
    using lt by (simp add: Cons_nth_drop_Suc)
  moreover have "Suc (k - 1) = k" using assms by simp
  ultimately show thesis
    using that [of "take (k - 1) xs" "xs ! (k - 1)" "drop k xs"] lt by simp
qed

text \<open>
  Claim C6, as the code has it. When the handlers of all \<open>N\<close> tasks return (\<open>rs\<close>
  their results), the observers called for these tasks return, the task ids are
  pairwise distinct and no cancellation is requested, the run returns, every task ends
  \<open>completed\<close>, the workflow ends \<open>completed\<close>, and the returned value, which is
  also the workflow's result, has exactly \<open>N\<close> entries: each task id with the result of
  that task's handler.
\<close>

theorem all_tasks_succeed:
  assumes ok: "tasks_return eng [] (wf_tasks w) rs"
    and noreq: "\<forall>j<length (wf_tasks w). \<not> req j"
    and ids: "distinct (map task_id (wf_tasks w))"
  shows "case execute_workflow req eng wd w of
           (out, eng', wd', w') \<Rightarrow>
             out = Inr (zip (map task_id (wf_tasks w)) rs)
           \<and> wf_status w' = Completed
           \<and> wf_result w' = PDict (zip (map task_id (wf_tasks w)) rs)
           \<and> length (zip (map task_id (wf_tasks w)) rs) = length (wf_tasks w)
           \<and> length (wf_tasks w') = length (wf_tasks w)
           \<and> (\<forall>t\<in>set (wf_tasks w'). task_status t = Completed)
           \<and> map task_result (wf_tasks w') = rs
           \<and> map task_id (wf_tasks w') = map task_id (wf_tasks w)"
proof -
  let ?s0 = "\<lparr> rs_engine = eng\<lparr>cancel_execution := False\<rparr>, rs_world = wd,
               rs_results = [], rs_index = - 1 \<rparr>"
  have "tasks_return (rs_engine ?s0) (rs_results ?s0) (wf_tasks w) rs"
    using ok by (simp add: tasks_return_flag)
  moreover have "\<forall>j<length (wf_tasks w). \<not> req (0 + j)"
    using noreq by simp
  moreover have "\<not> cancel_execution (rs_engine ?s0)"
    by simp
  ultimately obtain pre' s' where
    run: "run_tasks req 0 (wf_tasks w @ []) ?s0 =
            (case run_tasks req (0 + length (wf_tasks w)) [] s' of
               (x, ts', s'') \<Rightarrow> (x, pre' @ ts', s''))"
    and pre': "length pre' = length (wf_tasks w)" "\<forall>t\<in>set pre'. task_status t = Completed"
      "map task_result pre' = rs" "map task_id pre' = map task_id (wf_tasks w)"
    and res: "rs_results s' = results_of (rs_results ?s0) (wf_tasks w) rs"
    by (rule run_tasks_prefix_obtain)
  have final: "run_tasks req 0 (wf_tasks w) ?s0 = (Exhausted, pre', s')"
    using run by simp
  have "results_of [] (wf_tasks w) rs = zip (map task_id (wf_tasks w)) rs"
    using results_of_distinct [of "[]" "wf_tasks w" rs] ids tasks_return_length [OF ok]
    by simp
  with final pre' res tasks_return_length [OF ok] show ?thesis
    by (simp add: execute_workflow_def Let_def del: run_tasks.simps)
qed

text \<open>
  Claim C4, as the code has it. When the tasks before task \<open>k\<close> (counted from 1)
  return, the handler of task \<open>k\<close> fails with an exception \<open>e\<close> of the class
  \<^verbatim>\<open>Exception\<close>, and the observers called for these tasks return, the run does not
  return: \<open>e\<close> reaches the caller, the workflow ends \<open>failed\<close> with the message of
  \<open>e\<close>, which is also the error of task \<open>k\<close>, the tasks before \<open>k\<close> end
  \<open>completed\<close>, and the tasks after \<open>k\<close> are what they were before the run: never
  started, pending as they were.
\<close>

theorem failing_task_aborts:
  assumes k: "1 \<le> k" "k \<le> length (wf_tasks w)"
    and ok: "tasks_return eng [] (take (k - 1) (wf_tasks w)) rs"
    and start: "start_returns eng (wf_tasks w ! (k - 1))"
    and bad: "call_handler eng (wf_tasks w ! (k - 1))
                (results_of [] (take (k - 1) (wf_tasks w)) rs) = Inl e"
    and exc: "is_Exception e"
    and quiet: "fail_returns eng (wf_tasks w ! (k - 1)) e"
    and noreq: "\<forall>j<k. \<not> req j"
  shows "case execute_workflow req eng wd w of
           (out, eng', wd', w') \<Rightarrow>
             out = Inl e
           \<and> wf_status w' = Failed
           \<and> wf_error w' = Some (exn_str e)
           \<and> length (wf_tasks w') = length (wf_tasks w)
           \<and> (\<forall>t\<in>set (take (k - 1) (wf_tasks w')). task_status t = Completed)
           \<and> task_status (wf_tasks w' ! (k - 1)) = Failed
           \<and> task_error (wf_tasks w' ! (k - 1)) = Some (exn_str e)
           \<and> drop k (wf_tasks w') = drop k (wf_tasks w)"
proof -
  let ?s0 = "\<lparr> rs_engine = eng\<lparr>cancel_execution := False\<rparr>, rs_world = wd,
               rs_results = [], rs_index = - 1 \<rparr>"
  from split_at [OF k] obtain pre t post where
    sp: "wf_tasks w = pre @ t # post" "length pre = k - 1"
      "take (k - 1) (wf_tasks w) = pre" "wf_tasks w ! (k - 1) = t"
      "drop k (wf_tasks w) = post"
    by metis
  have k': "k = Suc (length pre)" using sp(2) k by simp
  have "tasks_return (rs_engine ?s0) (rs_results ?s0) pre rs"
    using ok sp(3) by (simp add: tasks_return_flag)
  moreover have "\<forall>j<length pre. \<not> req (0 + j)"
    using noreq k' by simp
  moreover have "\<not> cancel_execution (rs_engine ?s0)"
    by simp
  ultimately obtain pre' s' where
    run: "run_tasks req 0 (pre @ t # post) ?s0 =
            (case run_tasks req (0 + length pre) (t # post) s' of
               (x, ts', s'') \<Rightarrow> (x, pre' @ ts', s''))"
    and pre': "length pre' = length pre" "\<forall>t\<in>set pre'. task_status t = Completed"
    and s': "rs_engine s' = rs_engine ?s0" "rs_results s' = results_of (rs_results ?s0) pre rs"
    by (rule run_tasks_prefix_obtain)
  have "\<exists>t' s''. run_tasks req (0 + length pre) (t # post) s' = (Aborted e, t' # post, s'')
           \<and> task_status t' = Failed \<and> task_error t' = Some (exn_str e)
           \<and> rs_results s'' = rs_results s' \<and> rs_index s'' = int (0 + length pre)"
    by (rule run_tasks_aborted)
      (use noreq k' bad exc start quiet s' sp(3,4) in
        \<open>simp_all add: call_handler_flag start_returns_flag fail_returns_flag\<close>)
  then obtain t' s'' where
    ab: "run_tasks req (0 + length pre) (t # post) s' = (Aborted e, t' # post, s'')"
    "task_status t' = Failed" "task_error t' = Some (exn_str e)"
    by blast
  have final: "run_tasks req 0 (wf_tasks w) ?s0 = (Aborted e, pre' @ t' # post, s'')"
    using run ab(1) sp(1) by simp
  have len: "length (wf_tasks w) = Suc (length pre + length post)"
    by (simp add: sp(1))
  show ?thesis
    using final pre' ab(2,3) sp(5) len exc
    unfolding k'
    by (simp add: execute_workflow_def Let_def nth_append del: run_tasks.simps)
qed

text \<open>
  Claim C5, as the code has it. When the cancellation flag is raised during the run and
  first seen at the check before task \<open>i\<close> (counted from 1), the tasks \<open>1..i-1\<close>
  have returned (their handlers and the observers called for them) and have pairwise
  distinct ids, the run returns exactly the results of the tasks \<open>1..i-1\<close>, one entry
  for each, the workflow ends \<open>failed\<close> with the cancellation marker, and the tasks
  \<open>i..N\<close> are what they were before the run: never started, pending as they were.
\<close>

theorem cancelled_before_task:
  assumes i: "1 \<le> i" "i \<le> length (wf_tasks w)"
    and ok: "tasks_return eng [] (take (i - 1) (wf_tasks w)) rs"
    and ids: "distinct (map task_id (take (i - 1) (wf_tasks w)))"
    and noreq: "\<forall>j<i - 1. \<not> req j"
    and req: "req (i - 1)"
  shows "case execute_workflow req eng wd w of
           (out, eng', wd', w') \<Rightarrow>
             out = Inr (zip (map task_id (take (i - 1) (wf_tasks w))) rs)
           \<and> length rs = i - 1
           \<and> wf_status w' = Failed
           \<and> wf_error w' = Some cancelled_msg
           \<and> length (wf_tasks w') = length (wf_tasks w)
           \<and> (\<forall>t\<in>set (take (i - 1) (wf_tasks w')). task_status t = Completed)
           \<and> map task_result (take (i - 1) (wf_tasks w')) = rs
           \<and> drop (i - 1) (wf_tasks w') = drop (i - 1) (wf_tasks w)"
proof -
  let ?s0 = "\<lparr> rs_engine = eng\<lparr>cancel_execution := False\<rparr>, rs_world = wd,
               rs_results = [], rs_index = - 1 \<rparr>"
  from split_at [OF i] obtain pre t post where
    sp: "wf_tasks w = pre @ t # post" "length pre = i - 1"
      "take (i - 1) (wf_tasks w) = pre" "drop (i - 1) (wf_tasks w) = t # post"
    by metis
  have "tasks_return (rs_engine ?s0) (rs_results ?s0) pre rs"
    using ok sp(3) by (simp add: tasks_return_flag)
  moreover have "\<forall>j<length pre. \<not> req (0 + j)"
    using noreq sp(2) by simp
  moreover have "\<not> cancel_execution (rs_engine ?s0)"
    by simp
  ultimately obtain pre' s' where
    run: "run_tasks req 0 (pre @ t # post) ?s0 =
            (case run_tasks req (0 + length pre) (t # post) s' of
               (x, ts', s'') \<Rightarrow> (x, pre' @ ts', s''))"
    and pre': "length pre' = length pre" "\<forall>t\<in>set pre'. task_status t = Completed"
      "map task_result pre' = rs"
    and s': "rs_results s' = results_of (rs_results ?s0) pre rs"
    by (rule run_tasks_prefix_obtain)
  have "req (0 + length pre)"
    using req sp(2) by simp
  from run_tasks_cancelled [of req "0 + length pre", OF this] run sp(1)
  have final: "run_tasks req 0 (wf_tasks w) ?s0 =
      (Cancelled, pre' @ t # post, s'\<lparr>rs_engine := (rs_engine s')\<lparr>cancel_execution := True\<rparr>\<rparr>)"
    by simp
  have lrs: "length rs = length pre"
    using tasks_return_length [OF ok] unfolding sp(3) .
  have len: "length (wf_tasks w) = Suc (length pre + length post)"
    by (simp add: sp(1))
  have i': "i - 1 = length pre"
    using sp(2) by simp
  have zip: "results_of [] pre rs = zip (map task_id pre) rs"
    using results_of_distinct [of "[]" pre rs] lrs ids sp(3) by simp
  show ?thesis
    using final pre' s' zip lrs sp(3,4) len
    unfolding i'
    by (simp add: execute_workflow_def Let_def del: run_tasks.simps)
qed

section \<open>The statuses during a run\<close>

lemma forward_refl: "forward a a"
  by (cases a) simp_all

lemma forward_all_refl: "list_all2 forward xs xs"
  by (simp add: list_all2_same forward_refl)

lemma forward_all_at:
  "forward a b \<Longrightarrow> list_all2 forward (past @ a # rest) (past @ b # rest)"
  by (simp add: list_all2_appendI forward_all_refl)

lemma forward_snapshots:
  "successively forward (a # ws) \<Longrightarrow>
   successively (list_all2 forward) (map (\<lambda>st. past @ st # rest) (a # ws))"
  by (induction ws arbitrary: a) (simp_all add: forward_all_at)

lemma status_writes_nonempty: "status_writes eng t prev \<noteq> []"
  by (simp add: status_writes_def)

text \<open>What a call assigns, against what it returns and leaves in the task.\<close>

lemma execute_task_writes:
  assumes "execute_task eng wd t prev = (out, t', wd')"
  shows "task_status t' = last (status_writes eng t prev)"
    and "(\<exists>r. out = Inr r) \<Longrightarrow> status_writes eng t prev = [Running, Completed]"
  using assms
  by (auto simp: execute_task_def try_block_def except_block_def status_writes_def
      datetime_now_def notify_def call_handler_marked Let_def
      split: option.splits sum.splits if_splits)

lemma status_writes_forward:
  assumes "\<And>f tid r e. on_task_complete eng = Some f \<Longrightarrow> f tid r = Some e \<Longrightarrow> \<not> is_Exception e"
  shows "successively forward (Pending # status_writes eng t prev)"
proof (cases "on_task_complete eng")
  case None
  then show ?thesis
    by (simp add: status_writes_def split: option.splits sum.splits)
next
  case (Some f)
  with assms have "\<And>tid r e. f tid r = Some e \<Longrightarrow> \<not> is_Exception e"
    by blast
  with Some show ?thesis
    by (auto simp: status_writes_def split: option.splits sum.splits)
qed

lemma status_trace_forward:
  assumes "\<forall>t\<in>set ts. task_status t = Pending"
    and "\<And>f tid r e. on_task_complete (rs_engine s) = Some f \<Longrightarrow> f tid r = Some e
           \<Longrightarrow> \<not> is_Exception e"
  shows "successively (list_all2 forward)
           ((past @ map task_status ts) # status_trace req i past ts s)"
  using assms
proof (induction ts arbitrary: past i s)
  case Nil
  show ?case by simp
next
  case (Cons t ts)
  let ?eng = "(rs_engine s)\<lparr>cancel_execution := cancel_execution (rs_engine s) \<or> req i\<rparr>"
  let ?g = "\<lambda>st. past @ st # map task_status ts"
  let ?ws = "status_writes ?eng t (rs_results s)"
  show ?case
  proof (cases "cancel_execution ?eng")
    case True
    then show ?thesis by (simp add: Let_def)
  next
    case False
    obtain out t' wd' where ex:
      "execute_task ?eng (rs_world s) t (rs_results s) = (out, t', wd')"
      by (cases "execute_task ?eng (rs_world s) t (rs_results s)") auto
    have pend: "task_status t = Pending" using Cons.prems(1) by simp
    have quiet: "\<And>f tid r e. on_task_complete ?eng = Some f \<Longrightarrow> f tid r = Some e
           \<Longrightarrow> \<not> is_Exception e"
      using Cons.prems(2) by simp
    have chain: "successively (list_all2 forward) (map ?g (Pending # ?ws))"
      by (rule forward_snapshots) (rule status_writes_forward [OF quiet])
    show ?thesis
    proof (cases out)
      case (Inl e)
      have "status_trace req i past (t # ts) s = map ?g ?ws"
        using False ex Inl by (simp add: Let_def)
      with chain pend show ?thesis by simp
    next
      case (Inr r)
      let ?s' = "s\<lparr>rs_engine := ?eng, rs_world := wd', rs_index := int i,
                    rs_results := dict_set (rs_results s) (task_id t') r\<rparr>"
      let ?tail = "status_trace req (Suc i) (past @ [Completed]) ts ?s'"
      have ws: "?ws = [Running, Completed]"
        using execute_task_writes(2) [OF ex] Inr by blast
      have st: "task_status t' = Completed"
        using execute_task_writes(1) [OF ex] ws by simp
      have tr: "status_trace req i past (t # ts) s = map ?g ?ws @ ?tail"
        using False ex Inr st by (simp add: Let_def)
      have ih: "successively (list_all2 forward)
                  (((past @ [Completed]) @ map task_status ts) # ?tail)"
        by (rule Cons.IH) (use Cons.prems in simp_all)
      then have ih': "successively (list_all2 forward) (?g Completed # ?tail)"
        by simp
      have "successively (list_all2 forward)
              (?g Pending # ?g Running # ?g Completed # ?tail)"
        using chain ih' unfolding ws by simp
      then show ?thesis
        unfolding tr ws using pend by simp
    qed
  qed
qed

lemma status_trace_last:
  "last ((past @ map task_status ts) # status_trace req i past ts s) =
     past @ map task_status (fst (snd (run_tasks req i ts s)))"
proof (induction ts arbitrary: past i s)
  case Nil
  show ?case by simp
next
  case (Cons t ts)
  let ?eng = "(rs_engine s)\<lparr>cancel_execution := cancel_execution (rs_engine s) \<or> req i\<rparr>"
  let ?g = "\<lambda>st. past @ st # map task_status ts"
  let ?ws = "status_writes ?eng t (rs_results s)"
  show ?case
  proof (cases "cancel_execution ?eng")
    case True
    then show ?thesis by (simp add: Let_def)
  next
    case False
    obtain out t' wd' where ex:
      "execute_task ?eng (rs_world s) t (rs_results s) = (out, t', wd')"
      by (cases "execute_task ?eng (rs_world s) t (rs_results s)") auto
    have st: "task_status t' = last ?ws"
      by (rule execute_task_writes(1) [OF ex])
    have ne: "?ws \<noteq> []"
      by (rule status_writes_nonempty)
    show ?thesis
    proof (cases out)
      case (Inl e)
      have "status_trace req i past (t # ts) s = map ?g ?ws"
        using False ex Inl by (simp add: Let_def)
      moreover have "fst (snd (run_tasks req i (t # ts) s)) = t' # ts"
        using False ex Inl by (simp add: Let_def)
      ultimately show ?thesis
        using ne st by (simp add: last_map)
    next
      case (Inr r)
      let ?s' = "s\<lparr>rs_engine := ?eng, rs_world := wd', rs_index := int i,
                    rs_results := dict_set (rs_results s) (task_id t') r\<rparr>"
      let ?tail = "status_trace req (Suc i) (past @ [task_status t']) ts ?s'"
      have tr: "status_trace req i past (t # ts) s = map ?g ?ws @ ?tail"
        using False ex Inr by (simp add: Let_def)
      have run: "fst (snd (run_tasks req i (t # ts) s)) =
                   t' # fst (snd (run_tasks req (Suc i) ts ?s'))"
        using False ex Inr by (simp add: Let_def split: prod.splits)
      have ih: "last (((past @ [task_status t']) @ map task_status ts) # ?tail) =
            (past @ [task_status t']) @ map task_status (fst (snd (run_tasks req (Suc i) ts ?s')))"
        by (rule Cons.IH)
      show ?thesis
      proof (cases "?tail = []")
        case True
        with ih tr run ne st show ?thesis
          by (simp add: last_map)
      next
        case False
        with ih tr run show ?thesis
          by simp
      qed
    qed
  qed
qed

lemma execute_workflow_tasks:
  "wf_tasks (snd (snd (snd (execute_workflow req eng wd w)))) =
     fst (snd (run_tasks req 0 (wf_tasks w)
       \<lparr> rs_engine = eng\<lparr>cancel_execution := False\<rparr>, rs_world = wd,
         rs_results = [], rs_index = - 1 \<rparr>))"
  by (simp add: execute_workflow_def Let_def split: prod.splits loop_exit.splits
      del: run_tasks.simps)

text \<open>
  Claim C8, as the code has it. In a run that starts with every task pending, as
  \<^verbatim>\<open>Task.__init__\<close> creates them and as the caller's reset leaves them, and in
  which the completion observer raises no \<^verbatim>\<open>Exception\<close>, from one assignment of a
  status to the next the status of every task stays as it is or moves one step forward,
  from \<open>pending\<close> to \<open>running\<close> or from \<open>running\<close> to \<open>completed\<close> or
  \<open>failed\<close>; the snapshots start with the statuses before the run and end with the
  statuses that \<open>execute_workflow\<close> leaves.
\<close>

theorem statuses_move_forward:
  assumes "\<forall>t\<in>set (wf_tasks w). task_status t = Pending"
    and "\<forall>f tid r e. on_task_complete eng = Some f \<longrightarrow> f tid r = Some e \<longrightarrow> \<not> is_Exception e"
  shows "successively (list_all2 forward) (execute_workflow_trace req eng wd w)
       \<and> hd (execute_workflow_trace req eng wd w) = map task_status (wf_tasks w)
       \<and> last (execute_workflow_trace req eng wd w) =
           map task_status (wf_tasks (snd (snd (snd (execute_workflow req eng wd w)))))"
proof -
  let ?s0 = "\<lparr> rs_engine = eng\<lparr>cancel_execution := False\<rparr>, rs_world = wd,
               rs_results = [], rs_index = - 1 \<rparr>"
  have "successively (list_all2 forward)
          (([] @ map task_status (wf_tasks w)) # status_trace req 0 [] (wf_tasks w) ?s0)"
    by (rule status_trace_forward) (use assms in auto)
  with status_trace_last [of "[]" "wf_tasks w" req 0 ?s0] show ?thesis
    by (simp add: execute_workflow_trace_def execute_workflow_tasks
        del: status_trace.simps run_tasks.simps)
qed

section \<open>The theorems of the run on the sample workflows\<close>

theorem all_tasks_succeed_witness:
  "tasks_return sample_engine [] (wf_tasks (sample_workflow [first_task, second_task]))
     [first_result, second_result]
   \<and> \<not> never 0 \<and> \<not> never 1
   \<and> distinct (map task_id (wf_tasks (sample_workflow [first_task, second_task])))
   \<and> fst (execute_workflow never sample_engine sample_world
             (sample_workflow [first_task, second_task]))
       = Inr [(''t1'', first_result), (''t2'', second_result)]
   \<and> wf_status (snd (snd (snd (execute_workflow never sample_engine sample_world
             (sample_workflow [first_task, second_task]))))) = Completed"
proof -
  let ?w = "sample_workflow [first_task, second_task]"
  have h1: "tasks_return sample_engine [] (wf_tasks ?w) [first_result, second_result]"
    by (simp add: sample_defs resolve_defs observer_defs)
  have h2: "\<forall>j<length (wf_tasks ?w). \<not> never j"
    by (simp add: never_def)
  have h3: "distinct (map task_id (wf_tasks ?w))"
    by (simp add: sample_defs)
  have ids: "map task_id (wf_tasks ?w) = [''t1'', ''t2'']"
    by (simp add: sample_defs)
  have n: "\<not> never 0" "\<not> never 1"
    by (simp_all add: never_def)
  from all_tasks_succeed [OF h1 h2 h3, of sample_world] h1 n h3 ids show ?thesis
    by (simp split: prod.splits del: tasks_return.simps)
qed

text \<open>
  Claim C6 as worded asks nothing of the observers. With a completion observer that
  raises, the handler of the only task returns, nothing is cancelled, and yet the run
  raises, the task ends \<open>failed\<close> and so does the workflow. With a start observer
  that raises, the run raises as well and the task is left \<open>running\<close>.
\<close>

theorem all_tasks_succeed_counterexample:
  "handlers_return complete_raising_engine [] [first_task] [first_result]
   \<and> distinct (map task_id [first_task])
   \<and> \<not> never 0
   \<and> fst (execute_workflow never complete_raising_engine sample_world
             (sample_workflow [first_task]))
       = Inl (HandlerError ''observer'')
   \<and> map task_status (wf_tasks (snd (snd (snd (execute_workflow never
             complete_raising_engine sample_world (sample_workflow [first_task]))))))
       = [Failed]
   \<and> wf_status (snd (snd (snd (execute_workflow never complete_raising_engine sample_world
             (sample_workflow [first_task]))))) = Failed
   \<and> handlers_return start_raising_engine [] [first_task] [first_result]
   \<and> fst (execute_workflow never start_raising_engine sample_world
             (sample_workflow [first_task]))
       = Inl (HandlerError ''observer'')
   \<and> map task_status (wf_tasks (snd (snd (snd (execute_workflow never
             start_raising_engine sample_world (sample_workflow [first_task]))))))
       = [Running]"
  by (simp add: execute_workflow_def sample_defs resolve_defs task_defs Let_def never_def)

theorem failing_task_aborts_witness:
  "(1::nat) \<le> 2 \<and> 2 \<le> length (wf_tasks (sample_workflow [first_task, boom_task, second_task]))
   \<and> tasks_return sample_engine []
        (take (2 - 1) (wf_tasks (sample_workflow [first_task, boom_task, second_task])))
        [first_result]
   \<and> start_returns sample_engine
        (wf_tasks (sample_workflow [first_task, boom_task, second_task]) ! (2 - 1))
   \<and> call_handler sample_engine
        (wf_tasks (sample_workflow [first_task, boom_task, second_task]) ! (2 - 1))
        (results_of [] (take (2 - 1) (wf_tasks (sample_workflow [first_task, boom_task, second_task])))
           [first_result]) = Inl (HandlerError ''boom'')
   \<and> is_Exception (HandlerError ''boom'')
   \<and> fail_returns sample_engine
        (wf_tasks (sample_workflow [first_task, boom_task, second_task]) ! (2 - 1))
        (HandlerError ''boom'')
   \<and> \<not> never 0 \<and> \<not> never 1
   \<and> fst (execute_workflow never sample_engine sample_world
             (sample_workflow [first_task, boom_task, second_task]))
       = Inl (HandlerError ''boom'')
   \<and> map task_status (wf_tasks (snd (snd (snd (execute_workflow never sample_engine
             sample_world (sample_workflow [first_task, boom_task, second_task]))))))
       = [Completed, Failed, Pending]"
proof -
  let ?w = "sample_workflow [first_task, boom_task, second_task]"
  have tasks: "wf_tasks ?w = [first_task, boom_task, second_task]"
    by (simp add: sample_workflow_def)
  have h1: "(1::nat) \<le> 2" and h2: "2 \<le> length (wf_tasks ?w)"
    by (simp_all add: tasks)
  have h3: "tasks_return sample_engine [] (take (2 - 1) (wf_tasks ?w)) [first_result]"
    by (simp add: tasks) (simp add: sample_defs resolve_defs observer_defs)
  have hs: "start_returns sample_engine (wf_tasks ?w ! (2 - 1))"
    by (simp add: tasks) (simp add: sample_defs observer_defs)
  have h4: "call_handler sample_engine (wf_tasks ?w ! (2 - 1))
              (results_of [] (take (2 - 1) (wf_tasks ?w)) [first_result])
            = Inl (HandlerError ''boom'')"
    by (simp add: tasks) (simp add: sample_defs resolve_defs)
  have he: "is_Exception (HandlerError ''boom'')"
    by simp
  have hq: "fail_returns sample_engine (wf_tasks ?w ! (2 - 1)) (HandlerError ''boom'')"
    by (simp add: tasks) (simp add: sample_defs observer_defs)
  have h5: "\<forall>j<(2::nat). \<not> never j"
    by (simp add: never_def)
  obtain out eng' wd' w' where run:
    "execute_workflow never sample_engine sample_world ?w = (out, eng', wd', w')"
    by (metis prod_cases4)
  from failing_task_aborts [OF h1 h2 h3 hs h4 he hq h5, of sample_world]
  have out: "out = Inl (HandlerError ''boom'')"
    by (simp add: run)
  have "map task_status (wf_tasks (snd (snd (snd
          (execute_workflow never sample_engine sample_world ?w)))))
        = [Completed, Failed, Pending]"
    by (simp add: execute_workflow_def sample_defs resolve_defs task_defs Let_def never_def)
  moreover have "fst (execute_workflow never sample_engine sample_world ?w)
        = Inl (HandlerError ''boom'')"
    by (simp add: run out)
  moreover have "\<not> never 0" "\<not> never 1"
    by (simp_all add: never_def)
  ultimately show ?thesis
    using h1 h2 h3 hs h4 he hq by blast
qed

text \<open>
  Claim C4 as worded speaks of every failure and asks nothing of the observers. When
  the failure observer raises, the error of the workflow is the message of the
  observer, not that of the task; and when the handler fails outside the class
  \<^verbatim>\<open>Exception\<close>, the task and the workflow are left \<open>running\<close>; and when an
  observer raises at an earlier task, that task is not completed and the failing task
  is never reached.
\<close>

theorem failing_task_counterexample:
  "call_handler fail_raising_engine boom_task [] = Inl (HandlerError ''boom'')
   \<and> wf_error (snd (snd (snd (execute_workflow never fail_raising_engine sample_world
        (sample_workflow [boom_task]))))) = Some ''observer''
   \<and> map task_error (wf_tasks (snd (snd (snd (execute_workflow never fail_raising_engine
        sample_world (sample_workflow [boom_task])))))) = [Some ''boom'']
   \<and> call_handler sample_engine interrupted_task [] = Inl (BaseExc ''cancelled'')
   \<and> fst (execute_workflow never sample_engine sample_world
        (sample_workflow [interrupted_task])) = Inl (BaseExc ''cancelled'')
   \<and> wf_status (snd (snd (snd (execute_workflow never sample_engine sample_world
        (sample_workflow [interrupted_task]))))) = Running
   \<and> map task_status (wf_tasks (snd (snd (snd (execute_workflow never sample_engine
        sample_world (sample_workflow [interrupted_task])))))) = [Running]
   \<and> handlers_return start_raising_engine [] [first_task] [first_result]
   \<and> call_handler start_raising_engine boom_task [(''t1'', first_result)]
       = Inl (HandlerError ''boom'')
   \<and> map task_status (wf_tasks (snd (snd (snd (execute_workflow never start_raising_engine
        sample_world (sample_workflow [first_task, boom_task])))))) = [Running, Pending]"
  by (simp add: execute_workflow_def sample_defs resolve_defs task_defs Let_def never_def)

theorem cancelled_before_task_witness:
  "(1::nat) \<le> 2 \<and> 2 \<le> length (wf_tasks (sample_workflow [first_task, second_task]))
   \<and> tasks_return sample_engine []
        (take (2 - 1) (wf_tasks (sample_workflow [first_task, second_task]))) [first_result]
   \<and> distinct (map task_id (take (2 - 1) (wf_tasks (sample_workflow [first_task, second_task]))))
   \<and> \<not> stop_at_second 0
   \<and> stop_at_second ((2::nat) - 1)
   \<and> fst (execute_workflow stop_at_second sample_engine sample_world
             (sample_workflow [first_task, second_task]))
       = Inr [(''t1'', first_result)]
   \<and> wf_error (snd (snd (snd (execute_workflow stop_at_second sample_engine sample_world
             (sample_workflow [first_task, second_task]))))) = Some cancelled_msg
   \<and> drop 1 (wf_tasks (snd (snd (snd (execute_workflow stop_at_second sample_engine sample_world
             (sample_workflow [first_task, second_task])))))) = [second_task]"
proof -
  let ?w = "sample_workflow [first_task, second_task]"
  have tasks: "wf_tasks ?w = [first_task, second_task]"
    by (simp add: sample_workflow_def)
  have h1: "(1::nat) \<le> 2" and h2: "2 \<le> length (wf_tasks ?w)"
    by (simp_all add: tasks)
  have h3: "tasks_return sample_engine [] (take (2 - 1) (wf_tasks ?w)) [first_result]"
    by (simp add: tasks) (simp add: sample_defs resolve_defs observer_defs)
  have hd: "distinct (map task_id (take (2 - 1) (wf_tasks ?w)))"
    by (simp add: tasks)
  have h4: "\<forall>j<(2::nat) - 1. \<not> stop_at_second j"
    by (simp add: stop_at_second_def)
  have h4': "\<not> stop_at_second 0"
    by (simp add: stop_at_second_def)
  have h5: "stop_at_second ((2::nat) - 1)"
    by (simp add: stop_at_second_def)
  have res: "zip (map task_id (take (2 - 1) (wf_tasks ?w))) [first_result]
               = [(''t1'', first_result)]"
    by (simp add: tasks) (simp add: sample_defs)
  have rest: "drop (2 - 1) (wf_tasks ?w) = [second_task]"
    by (simp add: tasks)
  obtain out eng' wd' w' where run:
    "execute_workflow stop_at_second sample_engine sample_world ?w = (out, eng', wd', w')"
    by (metis prod_cases4)
  from cancelled_before_task [OF h1 h2 h3 hd h4 h5, of sample_world]
  have "out = Inr (zip (map task_id (take (2 - 1) (wf_tasks ?w))) [first_result])"
    and "wf_error w' = Some cancelled_msg"
    and "drop (2 - 1) (wf_tasks w') = drop (2 - 1) (wf_tasks ?w)"
    by (simp_all add: run)
  then have "out = Inr [(''t1'', first_result)]" "wf_error w' = Some cancelled_msg"
    "drop 1 (wf_tasks w') = [second_task]"
    unfolding res rest by simp_all
  with run h1 h2 h3 hd h4' h5 show ?thesis
    by (simp del: tasks_return.simps)
qed

text \<open>
  Claim C5 as worded asks neither for distinct ids nor anything of the observers. With
  the ids \<open>t1\<close>, \<open>t2\<close>, \<open>t1\<close> and the flag raised before the fourth task, the run
  returns two entries, and the result of the first task is not among them; and with a
  start observer that raises, the run raises at the first task instead of returning at
  the check before the second.
\<close>

theorem cancelled_before_task_counterexample:
  "handlers_return sample_engine [] [first_task, second_task, namesake_task]
     [first_result, second_result, namesake_result]
   \<and> \<not> stop_at_fourth 0 \<and> \<not> stop_at_fourth 1 \<and> \<not> stop_at_fourth 2 \<and> stop_at_fourth 3
   \<and> fst (execute_workflow stop_at_fourth sample_engine sample_world
        (sample_workflow [first_task, second_task, namesake_task, boom_task]))
       = Inr [(''t1'', namesake_result), (''t2'', second_result)]
   \<and> first_result \<noteq> namesake_result
   \<and> handlers_return start_raising_engine [] [first_task] [first_result]
   \<and> \<not> stop_at_second 0 \<and> stop_at_second 1
   \<and> fst (execute_workflow stop_at_second start_raising_engine sample_world
        (sample_workflow [first_task, second_task]))
       = Inl (HandlerError ''observer'')"
  by (simp add: execute_workflow_def sample_defs resolve_defs task_defs Let_def
      stop_at_fourth_def stop_at_second_def)

theorem statuses_move_forward_witness:
  "map task_status (wf_tasks (sample_workflow [first_task, boom_task, second_task]))
     = [Pending, Pending, Pending]
   \<and> complete_returns sample_engine first_task first_result
   \<and> execute_workflow_trace never sample_engine sample_world
         (sample_workflow [first_task, boom_task, second_task])
       = [[Pending, Pending, Pending], [Running, Pending, Pending],
          [Completed, Pending, Pending], [Completed, Running, Pending],
          [Completed, Failed, Pending]]
   \<and> successively (list_all2 forward)
         (execute_workflow_trace never sample_engine sample_world
            (sample_workflow [first_task, boom_task, second_task]))"
proof -
  let ?w = "sample_workflow [first_task, boom_task, second_task]"
  have h: "\<forall>t\<in>set (wf_tasks ?w). task_status t = Pending"
    by (simp add: sample_defs)
  have q: "\<forall>f tid r e. on_task_complete sample_engine = Some f \<longrightarrow> f tid r = Some e
             \<longrightarrow> \<not> is_Exception e"
    by (simp add: sample_defs)
  have h': "map task_status (wf_tasks ?w) = [Pending, Pending, Pending]"
    by (simp add: sample_defs)
  have c: "complete_returns sample_engine first_task first_result"
    by (simp add: sample_defs observer_defs)
  have tr: "execute_workflow_trace never sample_engine sample_world ?w
       = [[Pending, Pending, Pending], [Running, Pending, Pending],
          [Completed, Pending, Pending], [Completed, Running, Pending],
          [Completed, Failed, Pending]]"
    by (simp add: execute_workflow_trace_def status_writes_def sample_defs resolve_defs
        task_defs Let_def never_def)
  from statuses_move_forward [OF h q, of never sample_world] h' c tr
  show ?thesis
    by blast
qed

text \<open>
  Claim C8 as worded has neither condition. A task that a former run left
  \<open>completed\<close> is set back to \<open>running\<close> when the same workflow is run again: the
  engine resets no status itself. And a task whose handler has returned is set from
  \<open>completed\<close> to \<open>failed\<close> when the completion observer raises.
\<close>

theorem statuses_counterexample:
  "execute_workflow_trace never sample_engine sample_world
     (sample_workflow [first_task\<lparr>task_status := Completed\<rparr>])
     = [[Completed], [Running], [Completed]]
   \<and> \<not> forward Completed Running
   \<and> task_status first_task = Pending
   \<and> execute_workflow_trace never complete_raising_engine sample_world
        (sample_workflow [first_task])
     = [[Pending], [Running], [Completed], [Failed]]
   \<and> \<not> forward Completed Failed"
  by (simp add: execute_workflow_trace_def status_writes_def sample_defs resolve_defs
      task_defs Let_def never_def)

section \<open>Persistence\<close>

lemma save_returns_iff:
  "(\<exists>path mgr'. save_workflow_instance mgr w = (Inr path, mgr')) \<longleftrightarrow>
     open_error mgr (wf_id w @ ''.json'') = None \<and> unserializable (Workflow_to_dict w) = None"
  by (auto simp: save_workflow_instance_def Let_def split: option.splits)

lemma save_returns:
  assumes "save_workflow_instance mgr w = (Inr path, mgr')"
  shows "path = wf_id w @ ''.json''"
    and "mgr' = mgr\<lparr>instances := (instances mgr)(path \<mapsto> Document (Workflow_to_dict w))\<rparr>"
  using assms
  by (auto simp: save_workflow_instance_def Let_def split: option.splits)

lemma Task_round_trip:
  "Task_from_dict (Task_to_dict t) =
     Built (Task_init (task_id t) (task_handler t) (task_parameters t) (task_description t))"
  by (simp add: Task_from_dict_def Task_to_dict_def dict_get_def get_or_def task_of_fields_def
      params_arg_def)

lemma add_tasks_round_trip:
  "\<exists>w' wd'. add_tasks_from Task_from_dict wd w0 (map Task_to_dict ts) = (Built w', wd')
     \<and> wf_id w' = wf_id w0
     \<and> wf_tasks w' = wf_tasks w0 @
         map (\<lambda>t. Task_init (task_id t) (task_handler t) (task_parameters t)
                    (task_description t)) ts"
proof (induction ts arbitrary: wd w0)
  case Nil
  show ?case by simp
next
  case (Cons t ts)
  obtain w1 wd1 where a: "add_task wd w0 (Task_init (task_id t) (task_handler t)
      (task_parameters t) (task_description t)) = (w1, wd1)"
    by (metis prod.exhaust)
  then have w1: "wf_id w1 = wf_id w0" "wf_tasks w1 = wf_tasks w0 @
      [Task_init (task_id t) (task_handler t) (task_parameters t) (task_description t)]"
    by (auto simp: add_task_def datetime_now_def Let_def)
  from Cons.IH [of wd1 w1] a w1 show ?case
    by (simp add: Task_round_trip)
qed

text \<open>
  Claim C1, as the code has it. When saving a workflow returns (the instance file can
  be opened for writing and every value of the workflow is a JSON value), loading it by
  its id gives a workflow with the same id and a task list of the same length with the
  same task ids, handler types and parameters, in the same order. (The file holds no
  result, and loading builds every task anew.)
\<close>

theorem save_load_keeps_definitions:
  assumes "save_workflow_instance mgr w = (Inr path, mgr')"
  shows "\<exists>w' wd'.
     load_workflow_instance mgr' wd (wf_id w) = (Built (Some w'), wd')
     \<and> wf_id w' = wf_id w
     \<and> length (wf_tasks w') = length (wf_tasks w)
     \<and> map task_id (wf_tasks w') = map task_id (wf_tasks w)
     \<and> map task_handler (wf_tasks w') = map task_handler (wf_tasks w)
     \<and> map task_parameters (wf_tasks w') = map task_parameters (wf_tasks w)"
proof -
  obtain w0 wd0 where init:
    "Workflow_init wd (wf_id w) (wf_name w) (wf_description w) = (w0, wd0)"
    by (metis prod.exhaust)
  then have w0: "wf_id w0 = wf_id w" "wf_tasks w0 = []"
    by (auto simp: Workflow_init_def datetime_now_def Let_def)
  from add_tasks_round_trip [of wd0 w0 "wf_tasks w"] obtain w' wd' where
    built: "add_tasks_from Task_from_dict wd0 w0 (map Task_to_dict (wf_tasks w)) = (Built w', wd')"
    and w': "wf_id w' = wf_id w0" "wf_tasks w' = wf_tasks w0 @
         map (\<lambda>t. Task_init (task_id t) (task_handler t) (task_parameters t)
                    (task_description t)) (wf_tasks w)"
    by blast
  have stored: "instances mgr' (wf_id w @ ''.json'') = Some (Document (Workflow_to_dict w))"
    using save_returns [OF assms] by simp
  have "load_workflow_instance mgr' wd (wf_id w) = (Built (Some w'), wd')"
    using init built stored
    by (simp add: load_workflow_instance_def Workflow_from_dict_def
        workflow_of_document_def Workflow_to_dict_def dict_get_def get_or_def iterate_def
        Let_def)
  with w' w0 show ?thesis
    by (simp add: Task_init_def comp_def)
qed

theorem save_load_keeps_definitions_witness:
  "fst (save_workflow_instance empty_manager (sample_workflow [finished_task]))
     = Inr ''demo.json''
   \<and> map task_id (loaded_tasks (load_workflow_instance
        (snd (save_workflow_instance empty_manager (sample_workflow [finished_task])))
        sample_world ''demo'')) = [''t1'']
   \<and> map task_parameters (loaded_tasks (load_workflow_instance
        (snd (save_workflow_instance empty_manager (sample_workflow [finished_task])))
        sample_world ''demo'')) = [[(''text'', PStr ''hello'')]]"
proof -
  let ?w = "sample_workflow [finished_task]"
  obtain mgr' where s: "save_workflow_instance empty_manager ?w = (Inr ''demo.json'', mgr')"
    by (simp add: save_workflow_instance_def empty_manager_def flat_directory_def
        finished_task_def sample_defs Workflow_to_dict_def Task_to_dict_def Let_def)
  from save_load_keeps_definitions [OF s, of sample_world] obtain w' wd' where
    l: "load_workflow_instance mgr' sample_world (wf_id ?w) = (Built (Some w'), wd')"
    and t: "map task_id (wf_tasks w') = map task_id (wf_tasks ?w)"
      "map task_parameters (wf_tasks w') = map task_parameters (wf_tasks ?w)"
    by blast
  have i: "wf_id ?w = ''demo''"
    by (simp add: sample_workflow_def)
  have "map task_id (wf_tasks ?w) = [''t1'']"
    "map task_parameters (wf_tasks ?w) = [[(''text'', PStr ''hello'')]]"
    by (simp_all add: finished_task_def sample_defs)
  with s l t show ?thesis
    unfolding i by (simp add: loaded_tasks_def)
qed

text \<open>
  The claim as worded also promises the terminal statuses and the results, and speaks
  of every workflow. A completed task with a result comes back pending and without
  result; and a workflow whose id names a file in a directory that does not exist, or
  one with a date among its parameters, is not saved at all: saving raises, and loading
  gives \<^verbatim>\<open>None\<close>.
\<close>

theorem save_load_counterexample:
  "task_status finished_task = Completed \<and> task_result finished_task = first_result
   \<and> map task_status (loaded_tasks (load_workflow_instance
        (snd (save_workflow_instance empty_manager (sample_workflow [finished_task])))
        sample_world ''demo'')) = [Pending]
   \<and> map task_result (loaded_tasks (load_workflow_instance
        (snd (save_workflow_instance empty_manager (sample_workflow [finished_task])))
        sample_world ''demo'')) = [PNone]
   \<and> first_result \<noteq> PNone
   \<and> fst (save_workflow_instance empty_manager
             ((sample_workflow [first_task])\<lparr>wf_id := ''a/b''\<rparr>))
       = Inl (no_directory ''a/b.json'')
   \<and> fst (load_workflow_instance
        (snd (save_workflow_instance empty_manager
               ((sample_workflow [first_task])\<lparr>wf_id := ''a/b''\<rparr>)))
        sample_world ''a/b'') = Built None
   \<and> fst (save_workflow_instance empty_manager (sample_workflow [dated_task]))
       = Inl (TypeError (not_serializable_msg ''date''))
   \<and> fst (load_workflow_instance
        (snd (save_workflow_instance empty_manager (sample_workflow [dated_task])))
        sample_world ''demo'') = Built None"
  by (simp add: finished_task_def sample_defs empty_manager_def flat_directory_def
      loaded_tasks_def load_workflow_instance_def save_workflow_instance_def doc_defs
      dict_get_def datetime_now_def Let_def)

lemma add_tasks_from_id:
  "add_tasks_from mk wd w tds = (Built w', wd') \<Longrightarrow> wf_id w' = wf_id w"
proof (induction tds arbitrary: wd w)
  case Nil
  then show ?case by simp
next
  case (Cons td tds)
  show ?case
  proof (cases "mk td")
    case (Built t)
    obtain w1 wd1 where a: "add_task wd w t = (w1, wd1)"
      by (metis prod.exhaust)
    then have "wf_id w1 = wf_id w"
      by (auto simp: add_task_def datetime_now_def Let_def)
    with Cons.IH [of wd1 w1] Cons.prems Built a show ?thesis
      by simp
  qed (use Cons.prems in simp_all)
qed

lemma Workflow_from_yaml_id:
  assumes "Workflow_from_yaml wd data = (Built w0, wd1)"
  shows "\<exists>d. data = PDict d \<and> dict_get d ''id'' = Some (PStr (wf_id w0))"
proof -
  from assms obtain d where d: "data = PDict d"
    by (cases data) (simp_all add: Workflow_from_yaml_def workflow_of_document_def)
  from assms d obtain iv where iv: "dict_get d ''id'' = Some iv"
    by (cases "dict_get d ''id''") (simp_all add: Workflow_from_yaml_def workflow_of_document_def)
  from assms d iv obtain nv where nv: "dict_get d ''name'' = Some nv"
    by (cases "dict_get d ''name''") (simp_all add: Workflow_from_yaml_def workflow_of_document_def)
  from assms d iv nv obtain i where i: "iv = PStr i"
    by (cases iv) (simp_all add: Workflow_from_yaml_def workflow_of_document_def)
  obtain w wdi where init:
    "Workflow_init wd i nv (get_or d ''description'' (PStr [])) = (w, wdi)"
    by (metis prod.exhaust)
  then have wi: "wf_id w = i"
    by (auto simp: Workflow_init_def datetime_now_def Let_def)
  from assms d iv nv i init obtain tds where
    "add_tasks_from Task_from_yaml wdi w tds = (Built w0, wd1)"
    by (cases "iterate (get_or d ''tasks'' (PList []))")
      (simp_all add: Workflow_from_yaml_def workflow_of_document_def)
  then have "wf_id w0 = i"
    using add_tasks_from_id wi by blast
  with d iv i show ?thesis by simp
qed

lemma unserializable_renamed:
  "unserializable (Workflow_to_dict (w\<lparr>wf_id := i, wf_created_at := c, wf_updated_at := u\<rparr>))
     = unserializable (Workflow_to_dict w)"
  by (simp add: Workflow_to_dict_def)

text \<open>
  Claim C7, as the code has it. Without a template file of the given name the call
  raises \<^verbatim>\<open>FileNotFoundError\<close>; what building the workflow from the template
  raises, and what opening the instance file raises, leaves the call as well. With a
  template file from which a workflow is built (\<open>Built\<close>: the file parses, has an id
  that is a string and a name, and its tasks are mappings with an id and a handler type
  that are strings and with parameters that are a mapping or blank), whose values are
  JSON values, and an instance file that can be opened for writing, the call returns a
  new workflow whose id is the id written in the template, which is the given id when
  the template is stored under its own id, followed by an underscore and the random
  suffix, whose two time stamps are the reading of the clock at that moment, and whose
  document is in the instance store, under its id, when the call returns; the templates
  are untouched.
\<close>

theorem create_from_template:
  "(templates mgr (template_id @ ''.yaml'') = None \<longrightarrow>
      create_workflow_from_template mgr wd template_id suffix
        = (Raises (FileNotFoundError (no_template_msg template_id)), mgr, wd))
   \<and> (\<forall>data e wd1.
         templates mgr (template_id @ ''.yaml'') = Some (Document data)
         \<and> Workflow_from_yaml wd data = (Raises e, wd1) \<longrightarrow>
         create_workflow_from_template mgr wd template_id suffix = (Raises e, mgr, wd1))
   \<and> (\<forall>data w0 wd1 e.
         templates mgr (template_id @ ''.yaml'') = Some (Document data)
         \<and> Workflow_from_yaml wd data = (Built w0, wd1)
         \<and> open_error mgr (wf_id w0 @ ''_'' @ suffix @ ''.json'') = Some e \<longrightarrow>
         fst (create_workflow_from_template mgr wd template_id suffix) = Raises e
         \<and> fst (snd (create_workflow_from_template mgr wd template_id suffix)) = mgr)
   \<and> (\<forall>data w0 wd1.
         templates mgr (template_id @ ''.yaml'') = Some (Document data)
         \<and> Workflow_from_yaml wd data = (Built w0, wd1)
         \<and> open_error mgr (wf_id w0 @ ''_'' @ suffix @ ''.json'') = None
         \<and> unserializable (Workflow_to_dict w0) = None \<longrightarrow>
         (\<exists>d w1 mgr1 wd2.
            create_workflow_from_template mgr wd template_id suffix = (Built w1, mgr1, wd2)
          \<and> data = PDict d \<and> dict_get d ''id'' = Some (PStr (wf_id w0))
          \<and> wf_id w1 = wf_id w0 @ ''_'' @ suffix
          \<and> (wf_id w0 = template_id \<longrightarrow> wf_id w1 = template_id @ ''_'' @ suffix)
          \<and> wf_created_at w1 = now wd1 \<and> wf_updated_at w1 = now wd1
          \<and> wf_tasks w1 = wf_tasks w0
          \<and> instances mgr1 (wf_id w1 @ ''.json'') = Some (Document (Workflow_to_dict w1))
          \<and> templates mgr1 = templates mgr))"
proof (intro conjI allI impI)
  assume "templates mgr (template_id @ ''.yaml'') = None"
  then show "create_workflow_from_template mgr wd template_id suffix
        = (Raises (FileNotFoundError (no_template_msg template_id)), mgr, wd)"
    by (simp add: create_workflow_from_template_def)
next
  fix data e wd1
  assume "templates mgr (template_id @ ''.yaml'') = Some (Document data)
         \<and> Workflow_from_yaml wd data = (Raises e, wd1)"
  then show "create_workflow_from_template mgr wd template_id suffix = (Raises e, mgr, wd1)"
    by (simp add: create_workflow_from_template_def)
next
  fix data w0 wd1 e
  assume a: "templates mgr (template_id @ ''.yaml'') = Some (Document data)
         \<and> Workflow_from_yaml wd data = (Built w0, wd1)
         \<and> open_error mgr (wf_id w0 @ ''_'' @ suffix @ ''.json'') = Some e"
  then show "fst (create_workflow_from_template mgr wd template_id suffix) = Raises e"
    by (simp add: create_workflow_from_template_def datetime_now_def Let_def
        save_workflow_instance_def)
  from a show "fst (snd (create_workflow_from_template mgr wd template_id suffix)) = mgr"
    by (simp add: create_workflow_from_template_def datetime_now_def Let_def
        save_workflow_instance_def)
next
  fix data w0 wd1
  assume a: "templates mgr (template_id @ ''.yaml'') = Some (Document data)
         \<and> Workflow_from_yaml wd data = (Built w0, wd1)
         \<and> open_error mgr (wf_id w0 @ ''_'' @ suffix @ ''.json'') = None
         \<and> unserializable (Workflow_to_dict w0) = None"
  then obtain d where d: "data = PDict d" "dict_get d ''id'' = Some (PStr (wf_id w0))"
    using Workflow_from_yaml_id by blast
  let ?w1 = "w0\<lparr>wf_id := wf_id w0 @ ''_'' @ suffix, wf_created_at := now wd1,
               wf_updated_at := now wd1\<rparr>"
  let ?mgr1 = "mgr\<lparr>instances := (instances mgr)
                 (wf_id w0 @ ''_'' @ suffix @ ''.json'' \<mapsto> Document (Workflow_to_dict ?w1))\<rparr>"
  have "create_workflow_from_template mgr wd template_id suffix
     = (Built ?w1, ?mgr1, wd1\<lparr>now := Suc (now wd1)\<rparr>)"
    using a
    by (simp add: create_workflow_from_template_def datetime_now_def Let_def
        save_workflow_instance_def unserializable_renamed)
  with d show "\<exists>d w1 mgr1 wd2.
            create_workflow_from_template mgr wd template_id suffix = (Built w1, mgr1, wd2)
          \<and> data = PDict d \<and> dict_get d ''id'' = Some (PStr (wf_id w0))
          \<and> wf_id w1 = wf_id w0 @ ''_'' @ suffix
          \<and> (wf_id w0 = template_id \<longrightarrow> wf_id w1 = template_id @ ''_'' @ suffix)
          \<and> wf_created_at w1 = now wd1 \<and> wf_updated_at w1 = now wd1
          \<and> wf_tasks w1 = wf_tasks w0
          \<and> instances mgr1 (wf_id w1 @ ''.json'') = Some (Document (Workflow_to_dict w1))
          \<and> templates mgr1 = templates mgr"
    by simp
qed

theorem create_from_template_witness:
  "templates template_manager (''nothing'' @ ''.yaml'') = None
   \<and> fst (create_workflow_from_template template_manager sample_world ''nothing'' ''0a1b2c3d'')
       = Raises (FileNotFoundError (no_template_msg ''nothing''))
   \<and> templates template_manager (''nameless'' @ ''.yaml'') = Some (Document nameless_template)
   \<and> Workflow_from_yaml sample_world nameless_template
       = (Raises (KeyError ''name''), sample_world)
   \<and> fst (create_workflow_from_template template_manager sample_world ''nameless''
         ''0a1b2c3d'') = Raises (KeyError ''name'')
   \<and> templates template_manager (''team/weekly'' @ ''.yaml'') = Some (Document weekly_template)
   \<and> Workflow_from_yaml sample_world weekly_template
       = (Built weekly_loaded, \<lparr> now = 2, notified = [] \<rparr>)
   \<and> open_error template_manager (wf_id weekly_loaded @ ''_'' @ ''0a1b2c3d'' @ ''.json'')
       = Some (no_directory ''team/weekly_0a1b2c3d.json'')
   \<and> fst (create_workflow_from_template template_manager sample_world ''team/weekly''
         ''0a1b2c3d'') = Raises (no_directory ''team/weekly_0a1b2c3d.json'')
   \<and> templates template_manager (''daily'' @ ''.yaml'') = Some (Document daily_template)
   \<and> Workflow_from_yaml sample_world daily_template
       = (Built daily_loaded, \<lparr> now = 3, notified = [] \<rparr>)
   \<and> open_error template_manager (wf_id daily_loaded @ ''_'' @ ''0a1b2c3d'' @ ''.json'') = None
   \<and> unserializable (Workflow_to_dict daily_loaded) = None
   \<and> wf_id daily_loaded = ''daily''
   \<and> the_built (fst (create_workflow_from_template template_manager sample_world
         ''daily'' ''0a1b2c3d''))
       = Some (daily_loaded\<lparr>wf_id := ''daily_0a1b2c3d'', wf_created_at := 3,
                 wf_updated_at := 3\<rparr>)
   \<and> instances (fst (snd (create_workflow_from_template template_manager sample_world
         ''daily'' ''0a1b2c3d''))) ''daily_0a1b2c3d.json''
       = Some (Document (Workflow_to_dict (daily_loaded\<lparr>wf_id := ''daily_0a1b2c3d''\<rparr>)))"
proof -
  note thm0 = create_from_template [of template_manager "''nothing''" sample_world "''0a1b2c3d''"]
  note thm1 = create_from_template [of template_manager "''nameless''" sample_world "''0a1b2c3d''"]
  note thm2 = create_from_template [of template_manager "''team/weekly''" sample_world
      "''0a1b2c3d''"]
  note thm3 = create_from_template [of template_manager "''daily''" sample_world "''0a1b2c3d''"]
  have h0: "templates template_manager (''nothing'' @ ''.yaml'') = None"
    by (simp add: template_manager_def)
  have t0: "fst (create_workflow_from_template template_manager sample_world
              ''nothing'' ''0a1b2c3d'')
            = Raises (FileNotFoundError (no_template_msg ''nothing''))"
    using thm0 h0 by simp
  have n1: "templates template_manager (''nameless'' @ ''.yaml'')
              = Some (Document nameless_template)"
    by (simp add: template_manager_def)
  have n2: "Workflow_from_yaml sample_world nameless_template
              = (Raises (KeyError ''name''), sample_world)"
    by (simp add: nameless_template_def doc_defs dict_get_def)
  from thm1 n1 n2 have "create_workflow_from_template template_manager sample_world
      ''nameless'' ''0a1b2c3d'' = (Raises (KeyError ''name''), template_manager, sample_world)"
    by blast
  then have t1: "fst (create_workflow_from_template template_manager sample_world ''nameless''
         ''0a1b2c3d'') = Raises (KeyError ''name'')"
    by simp
  have w1: "templates template_manager (''team/weekly'' @ ''.yaml'')
              = Some (Document weekly_template)"
    by (simp add: template_manager_def)
  have w2: "Workflow_from_yaml sample_world weekly_template
              = (Built weekly_loaded, \<lparr> now = 2, notified = [] \<rparr>)"
    by (simp add: weekly_template_def weekly_loaded_def sample_world_def doc_defs dict_get_def
        datetime_now_def Let_def)
  have w3: "open_error template_manager (wf_id weekly_loaded @ ''_'' @ ''0a1b2c3d'' @ ''.json'')
              = Some (no_directory ''team/weekly_0a1b2c3d.json'')"
    by (simp add: template_manager_def weekly_loaded_def flat_directory_def)
  from thm2 w1 w2 w3 have t2: "fst (create_workflow_from_template template_manager sample_world
         ''team/weekly'' ''0a1b2c3d'') = Raises (no_directory ''team/weekly_0a1b2c3d.json'')"
    by blast
  have h1: "templates template_manager (''daily'' @ ''.yaml'') = Some (Document daily_template)"
    by (simp add: template_manager_def)
  have h2: "Workflow_from_yaml sample_world daily_template
       = (Built daily_loaded, \<lparr> now = 3, notified = [] \<rparr>)"
    by (simp add: daily_template_def daily_loaded_def sample_defs doc_defs dict_get_def
        datetime_now_def Let_def)
  have h3: "open_error template_manager (wf_id daily_loaded @ ''_'' @ ''0a1b2c3d'' @ ''.json'')
              = None"
    by (simp add: template_manager_def daily_loaded_def flat_directory_def)
  have h4: "unserializable (Workflow_to_dict daily_loaded) = None"
    by (simp add: daily_loaded_def sample_defs Workflow_to_dict_def Task_to_dict_def)
  have h5: "wf_id daily_loaded = ''daily''"
    by (simp add: daily_loaded_def)
  from thm3 h1 h2 h3 h4
  obtain w1 mgr1 wd2 where
    c: "create_workflow_from_template template_manager sample_world ''daily'' ''0a1b2c3d''
          = (Built w1, mgr1, wd2)"
    and id1: "wf_id w1 = wf_id daily_loaded @ ''_'' @ ''0a1b2c3d''"
    and ts: "wf_created_at w1 = now \<lparr> now = 3, notified = [] \<rparr>"
      "wf_updated_at w1 = now \<lparr> now = 3, notified = [] \<rparr>"
    and i: "instances mgr1 (wf_id w1 @ ''.json'') = Some (Document (Workflow_to_dict w1))"
    by blast
  have v: "fst (create_workflow_from_template template_manager sample_world ''daily''
                 ''0a1b2c3d'')
      = Built (daily_loaded\<lparr>wf_id := ''daily_0a1b2c3d'', wf_created_at := 3,
                 wf_updated_at := 3\<rparr>)"
    using h1 h2 h3 h4
    by (simp add: create_workflow_from_template_def datetime_now_def Let_def
        save_workflow_instance_def unserializable_renamed h5)
  have eq1: "w1 = daily_loaded\<lparr>wf_id := ''daily_0a1b2c3d'', wf_created_at := 3,
                 wf_updated_at := 3\<rparr>"
    using c v by simp
  have td: "Workflow_to_dict (daily_loaded\<lparr>wf_id := ''daily_0a1b2c3d'', wf_created_at := 3,
                 wf_updated_at := 3\<rparr>)
            = Workflow_to_dict (daily_loaded\<lparr>wf_id := ''daily_0a1b2c3d''\<rparr>)"
    by (simp add: Workflow_to_dict_def)
  have id2: "wf_id w1 @ ''.json'' = ''daily_0a1b2c3d.json''"
    using id1 h5 by simp
  have inst: "instances mgr1 ''daily_0a1b2c3d.json''
       = Some (Document (Workflow_to_dict (daily_loaded\<lparr>wf_id := ''daily_0a1b2c3d''\<rparr>)))"
    using i id2 td by (simp add: eq1)
  have b: "the_built (fst (Built w1, mgr1, wd2)) = Some w1"
    by (simp add: the_built_def)
  have "the_built (fst (create_workflow_from_template template_manager sample_world
         ''daily'' ''0a1b2c3d'')) = Some (daily_loaded\<lparr>wf_id := ''daily_0a1b2c3d'',
           wf_created_at := 3, wf_updated_at := 3\<rparr>)"
    using b unfolding c eq1 .
  moreover have "instances (fst (snd (create_workflow_from_template template_manager
         sample_world ''daily'' ''0a1b2c3d''))) ''daily_0a1b2c3d.json''
       = Some (Document (Workflow_to_dict (daily_loaded\<lparr>wf_id := ''daily_0a1b2c3d''\<rparr>)))"
    using inst unfolding c by simp
  ultimately show ?thesis
    using h0 t0 n1 n2 t1 w1 w2 w3 t2 h1 h2 h3 h4 h5 by blast
qed

text \<open>
  The claim as worded lets the call return whenever the template file exists. Three
  templates, each stored under its own id, make it raise: one without a name, one with
  a date among its parameters, which \<^verbatim>\<open>json.dump\<close> cannot encode, and one whose id
  names a file in a directory that the instance store does not have.
\<close>

theorem create_from_template_counterexample:
  "templates template_manager (''nameless'' @ ''.yaml'') = Some (Document nameless_template)
   \<and> fst (create_workflow_from_template template_manager sample_world ''nameless''
         ''0a1b2c3d'') = Raises (KeyError ''name'')
   \<and> templates template_manager (''dated'' @ ''.yaml'') = Some (Document dated_template)
   \<and> fst (create_workflow_from_template template_manager sample_world ''dated''
         ''0a1b2c3d'') = Raises (TypeError (not_serializable_msg ''date''))
   \<and> templates template_manager (''team/weekly'' @ ''.yaml'') = Some (Document weekly_template)
   \<and> fst (create_workflow_from_template template_manager sample_world ''team/weekly''
         ''0a1b2c3d'') = Raises (no_directory ''team/weekly_0a1b2c3d.json'')"
  by (simp add: create_workflow_from_template_def template_manager_def nameless_template_def
      dated_template_def weekly_template_def sample_world_def doc_defs dict_get_def
      datetime_now_def save_workflow_instance_def flat_directory_def Let_def Task_init_def)

end
